theory Spec2Isabelle
  imports Complex_Main
begin

section \<open>Resilience layer of open-swe: resolver, circuit breaker, orchestrator\<close>

text \<open>
  The development embeds the model manager (\<open>utils/llms/model-manager.ts\<close>, the
  Redis-backed revision at the head of the file) and the fallback runnable
  (the revision with \<open>sanitizeHistory\<close>, together with the one in
  \<open>utils/runtime-fallback.ts\<close>).  Effects are explicit: the Redis store is a value
  passed in and returned, the instant at which a call runs is an argument (it is the
  reading of \<open>Date.now()\<close> and the time of the Redis commands of that call; one clock,
  in milliseconds), the provider call and the construction of a provider client are
  functions of the environment, and every \<open>throw\<close> is a value of a sum type.
  Logging is left out, and so are failures of an operation on a connected Redis client.
  Timestamps, counters and token numbers are \<open>int\<close>: the JavaScript numbers
  involved are integers far below \<open>2^53\<close>.
\<close>

subsection \<open>JavaScript string helpers\<close>

definition startsWith :: "string \<Rightarrow> string \<Rightarrow> bool" where
  "startsWith s p = (take (length p) s = p)"

fun includes_str :: "string \<Rightarrow> string \<Rightarrow> bool" where
  "includes_str [] sub = (sub = [])"
| "includes_str (c # cs) sub = (startsWith (c # cs) sub \<or> includes_str cs sub)"

subsection \<open>Circuit breaker (model-manager.ts)\<close>

datatype CircuitState = CLOSED | OPEN

record CircuitBreakerState =
  state :: CircuitState
  failureCount :: int
  lastFailureTime :: int
  openedAt :: "int option"

type_synonym Provider = string

record ModelManagerConfig =
  circuitBreakerFailureThreshold :: int
  circuitBreakerTimeoutMs :: int
  fallbackOrder :: "Provider list"

definition PROVIDER_FALLBACK_ORDER :: "Provider list" where
  "PROVIDER_FALLBACK_ORDER = [''openai'', ''anthropic'', ''google-genai'', ''bedrock'']"

definition DEFAULT_MODEL_MANAGER_CONFIG :: ModelManagerConfig where
  "DEFAULT_MODEL_MANAGER_CONFIG =
     \<lparr>circuitBreakerFailureThreshold = 2,
      circuitBreakerTimeoutMs = 180000,
      fallbackOrder = PROVIDER_FALLBACK_ORDER\<rparr>"

text \<open>
  The Redis store holds one JSON value per key, with the instant at which it expires:
  \<open>setEx(key, seconds, value)\<close> at time \<open>now\<close> keeps the value until
  \<open>now + 1000 * seconds\<close>, and \<open>get\<close> finds nothing once the time is past that
  instant.  \<open>getRedisStore()\<close> returns \<open>null\<close> when Redis cannot be reached: that is
  \<open>None\<close> here.
\<close>

type_synonym RedisStore = "string \<rightharpoonup> (CircuitBreakerState \<times> int)"

definition getJSON :: "RedisStore \<Rightarrow> string \<Rightarrow> int \<Rightarrow> CircuitBreakerState option" where
  "getJSON m key now =
     (case m key of
        None \<Rightarrow> None
      | Some (v, expiresAt) \<Rightarrow> if now \<le> expiresAt then Some v else None)"

definition setJSON :: "RedisStore \<Rightarrow> string \<Rightarrow> CircuitBreakerState \<Rightarrow> int \<Rightarrow> int \<Rightarrow> RedisStore" where
  "setJSON m key v expirationSeconds now = m(key \<mapsto> (v, now + 1000 * expirationSeconds))"

definition CIRCUIT_BREAKER_PREFIX :: string where
  "CIRCUIT_BREAKER_PREFIX = ''circuit_breaker:''"

definition getCircuitBreakerKey :: "string \<Rightarrow> string" where
  "getCircuitBreakerKey modelKey = CIRCUIT_BREAKER_PREFIX @ modelKey"

definition defaultState :: CircuitBreakerState where
  "defaultState = \<lparr>state = CLOSED, failureCount = 0, lastFailureTime = 0, openedAt = None\<rparr>"

text \<open>\<open>redisStore.setJSON(key, state, 86400)\<close>: the state is stored for 24 hours.\<close>

definition saveCircuitState ::
  "RedisStore option \<Rightarrow> string \<Rightarrow> CircuitBreakerState \<Rightarrow> int \<Rightarrow> RedisStore option" where
  "saveCircuitState redisStore modelKey s now =
     (case redisStore of
        None \<Rightarrow> None
      | Some m \<Rightarrow> Some (setJSON m (getCircuitBreakerKey modelKey) s 86400 now))"

definition getCircuitState ::
  "RedisStore option \<Rightarrow> string \<Rightarrow> int \<Rightarrow> CircuitBreakerState \<times> RedisStore option" where
  "getCircuitState redisStore modelKey now =
     (case redisStore of
        None \<Rightarrow> (defaultState, None)
      | Some m \<Rightarrow>
          (case getJSON m (getCircuitBreakerKey modelKey) now of
             Some s \<Rightarrow> (s, redisStore)
           | None \<Rightarrow> (defaultState, saveCircuitState redisStore modelKey defaultState now)))"

text \<open>\<open>state.openedAt\<close> used as a condition: a number is truthy unless it is 0.\<close>

definition truthy :: "int option \<Rightarrow> bool" where
  "truthy v = (case v of None \<Rightarrow> False | Some n \<Rightarrow> n \<noteq> 0)"

definition isCircuitClosed ::
  "ModelManagerConfig \<Rightarrow> RedisStore option \<Rightarrow> string \<Rightarrow> int \<Rightarrow> bool \<times> RedisStore option" where
  "isCircuitClosed cfg redisStore modelKey now =
     (let (s, r) = getCircuitState redisStore modelKey now in
      if state s = CLOSED then (True, r)
      else if state s = OPEN \<and> truthy (openedAt s) then
        (let timeElapsed = now - the (openedAt s) in
         if timeElapsed \<ge> circuitBreakerTimeoutMs cfg
         then (True, saveCircuitState r modelKey
                       (s\<lparr>state := CLOSED, failureCount := 0, openedAt := None\<rparr>) now)
         else (False, r))
      else (False, r))"

definition recordSuccess :: "RedisStore option \<Rightarrow> string \<Rightarrow> int \<Rightarrow> RedisStore option" where
  "recordSuccess redisStore modelKey now =
     (let (s, r) = getCircuitState redisStore modelKey now in
      saveCircuitState r modelKey
        (s\<lparr>state := CLOSED, failureCount := 0, openedAt := None\<rparr>) now)"

definition recordFailure ::
  "ModelManagerConfig \<Rightarrow> RedisStore option \<Rightarrow> string \<Rightarrow> int \<Rightarrow> RedisStore option" where
  "recordFailure cfg redisStore modelKey now =
     (let (s, r) = getCircuitState redisStore modelKey now;
          s1 = s\<lparr>lastFailureTime := now, failureCount := failureCount s + 1\<rparr>;
          s2 = (if failureCount s1 \<ge> circuitBreakerFailureThreshold cfg
                then s1\<lparr>state := OPEN, openedAt := Some now\<rparr>
                else s1)
      in saveCircuitState r modelKey s2 now)"

text \<open>The state of a key as the manager reads it at a given time.\<close>

definition circuitOf :: "RedisStore option \<Rightarrow> string \<Rightarrow> int \<Rightarrow> CircuitBreakerState" where
  "circuitOf redisStore modelKey now = fst (getCircuitState redisStore modelKey now)"



text \<open>The operations that change a circuit, as a sequence.\<close>

datatype BreakerOp =
    RecordFailure string int
  | RecordSuccess string int
  | IsCircuitClosed string int

fun applyOp :: "ModelManagerConfig \<Rightarrow> RedisStore option \<Rightarrow> BreakerOp \<Rightarrow> RedisStore option" where
  "applyOp cfg r (RecordFailure k now) = recordFailure cfg r k now"
| "applyOp cfg r (RecordSuccess k now) = recordSuccess r k now"
| "applyOp cfg r (IsCircuitClosed k now) = snd (isCircuitClosed cfg r k now)"

fun applyOps :: "ModelManagerConfig \<Rightarrow> RedisStore option \<Rightarrow> BreakerOp list \<Rightarrow> RedisStore option" where
  "applyOps cfg r [] = r"
| "applyOps cfg r (op # ops) = applyOps cfg (applyOp cfg r op) ops"

text \<open>The invariant of the data model: an open circuit has its opening time, a closed one has none.\<close>

definition circuitInvariant :: "CircuitBreakerState \<Rightarrow> bool" where
  "circuitInvariant s =
     ((state s = OPEN \<longrightarrow> openedAt s \<noteq> None) \<and> (state s = CLOSED \<longrightarrow> openedAt s = None))"

subsection \<open>Model configuration resolver (model-manager.ts)\<close>

text \<open>\<open>s.split(sep)\<close> for a separator of one character: never the empty list.\<close>

fun split :: "char \<Rightarrow> string \<Rightarrow> string list" where
  "split sep [] = [[]]"
| "split sep (c # cs) =
     (if c = sep then [] # split sep cs
      else (case split sep cs of [] \<Rightarrow> [[c]] | p # ps \<Rightarrow> (c # p) # ps))"

fun join_colon :: "string list \<Rightarrow> string" where
  "join_colon [] = []"
| "join_colon [p] = p"
| "join_colon (p # q # ps) = p @ '':'' @ join_colon (q # ps)"

definition toUpperCase :: "string \<Rightarrow> string" where
  "toUpperCase s =
     map (\<lambda>c. let n = (of_char c :: nat) in if 97 \<le> n \<and> n \<le> 122 then char_of (n - 32) else c) s"

text \<open>\<open>s.replace("-", "_")\<close>: the first occurrence only.\<close>

fun replace_dash :: "string \<Rightarrow> string" where
  "replace_dash [] = []"
| "replace_dash (c # cs) = (if c = CHR ''-'' then CHR ''_'' # cs else c # replace_dash cs)"

datatype LLMTask = PLANNER | PROGRAMMER | REVIEWER | ROUTER | SUMMARIZER

text \<open>
  Modelled from the spec: the string values of the enum \<open>LLMTask\<close>, which is declared
  in the shared package, outside the application sources.  The spec names the tasks planner,
  programmer, reviewer, router and summarizer and the variables \<open>DEFAULT_<TASK>_MODEL\<close>.
\<close>

fun taskValue :: "LLMTask \<Rightarrow> string" where
  "taskValue PLANNER = ''planner''"
| "taskValue PROGRAMMER = ''programmer''"
| "taskValue REVIEWER = ''reviewer''"
| "taskValue ROUTER = ''router''"
| "taskValue SUMMARIZER = ''summarizer''"

text \<open>
  \<open>config.configurable\<close>, by the keys the resolver reads: \<open>`${task}ModelName`\<close>,
  \<open>`${task}Temperature`\<close>, \<open>modelProvider\<close> and \<open>maxTokens\<close>.  An absent
  \<open>configurable\<close> is the record with every key absent.
\<close>

record Configurable =
  taskModelName :: "LLMTask \<Rightarrow> string option"
  taskTemperature :: "LLMTask \<Rightarrow> real option"
  modelProvider :: "string option"
  configMaxTokens :: "int option"

record ModelLoadConfig =
  provider :: Provider
  modelName :: string
  temperature :: "real option"
  maxTokens :: "int option"
  max_completion_tokens :: "int option"
  thinkingModel :: "bool option"
  thinkingBudgetTokens :: "int option"

type_synonym ProcessEnv = "string \<rightharpoonup> string"

text \<open>A string used as a condition: absent and empty are falsy.\<close>

definition truthyStr :: "string option \<Rightarrow> bool" where
  "truthyStr v = (case v of None \<Rightarrow> False | Some s \<Rightarrow> s \<noteq> [])"

definition THINKING_BUDGET_TOKENS :: int where
  "THINKING_BUDGET_TOKENS = 5000"

text \<open>
  \<open>TASK_TO_CONFIG_DEFAULTS_MAP[task].modelName\<close> is a table of the shared package; the
  resolver takes it as the parameter \<open>defaults\<close>.
\<close>

definition getDefaultModelForTask :: "ProcessEnv \<Rightarrow> (LLMTask \<Rightarrow> string) \<Rightarrow> LLMTask \<Rightarrow> string" where
  "getDefaultModelForTask env defaults task =
     (let envKey = ''DEFAULT_'' @ toUpperCase (taskValue task) @ ''_MODEL'';
          envValue = env envKey
      in if truthyStr envValue then the envValue else defaults task)"

definition getModelNameForTask ::
  "ProcessEnv \<Rightarrow> (LLMTask \<Rightarrow> string) \<Rightarrow> Configurable \<Rightarrow> LLMTask \<Rightarrow> string" where
  "getModelNameForTask env defaults config task =
     (let defaultModelName = getDefaultModelForTask env defaults task
      in case taskModelName config task of Some n \<Rightarrow> n | None \<Rightarrow> defaultModelName)"

definition providerMap :: "Provider \<Rightarrow> string option" where
  "providerMap p =
     (if p = ''anthropic'' then Some ''ANTHROPIC''
      else if p = ''openai'' then Some ''OPENAI''
      else if p = ''google-genai'' then Some ''GOOGLE_GENAI''
      else None)"

definition getModelFromEnv :: "ProcessEnv \<Rightarrow> Provider \<Rightarrow> LLMTask \<Rightarrow> string \<Rightarrow> string" where
  "getModelFromEnv env p task defaultValue =
     (let providerEnv = (if truthyStr (providerMap p) then the (providerMap p)
                         else replace_dash (toUpperCase p));
          envKey = ''FALLBACK_'' @ providerEnv @ ''_'' @ toUpperCase (taskValue task) @ ''_MODEL'';
          envValue = env envKey
      in if truthyStr envValue then the envValue else defaultValue)"

fun hardcodedDefaults :: "Provider \<Rightarrow> LLMTask \<Rightarrow> string option" where
  "hardcodedDefaults p task =
     (if p = ''anthropic'' then
        Some (case task of ROUTER \<Rightarrow> ''claude-3-5-haiku-20241022''
                         | _ \<Rightarrow> ''claude-sonnet-4-5-20250929'')
      else if p = ''google-genai'' then
        Some (case task of PLANNER \<Rightarrow> ''gemini-2.5-pro'' | PROGRAMMER \<Rightarrow> ''gemini-2.5-pro''
                         | REVIEWER \<Rightarrow> ''gemini-2.5-flash'' | ROUTER \<Rightarrow> ''gemini-2.5-flash''
                         | SUMMARIZER \<Rightarrow> ''gemini-2.5-pro'')
      else if p = ''bedrock'' then Some ''anthropic.claude-3-5-haiku-20241022-v1:0''
      else if p = ''openai'' then
        Some (case task of ROUTER \<Rightarrow> ''gpt-5-nano'' | SUMMARIZER \<Rightarrow> ''gpt-5-mini''
                         | _ \<Rightarrow> ''gpt-5-codex'')
      else None)"

definition getDefaultModelForProvider ::
  "ProcessEnv \<Rightarrow> Provider \<Rightarrow> LLMTask \<Rightarrow> ModelLoadConfig option" where
  "getDefaultModelForProvider env p task =
     (case hardcodedDefaults p task of
        None \<Rightarrow> None
      | Some hardcodedValue \<Rightarrow>
          Some \<lparr>provider = p, modelName = getModelFromEnv env p task hardcodedValue,
                temperature = None, maxTokens = None, max_completion_tokens = None,
                thinkingModel = None, thinkingBudgetTokens = None\<rparr>)"

definition oldToNewMappings :: "string \<Rightarrow> string option" where
  "oldToNewMappings modelStr =
     (if modelStr \<in> set [''bedrock:anthropic.claude-haiku-4-5-20251001-v1:0'',
                          ''bedrock:anthropic.claude-sonnet-4-5-20250929-v1:0'',
                          ''bedrock:anthropic.claude-opus-4-5-20251101-v1:0'',
                          ''bedrock:us.anthropic.claude-haiku-4-5-20251001-v1:0'',
                          ''bedrock:us.anthropic.claude-sonnet-4-5-20250929-v1:0'',
                          ''bedrock:us.anthropic.claude-opus-4-5-20251101-v1:0'']
      then Some ''bedrock:anthropic.claude-3-5-haiku-20241022-v1:0'' else None)"

definition getBaseConfigForTask ::
  "ProcessEnv \<Rightarrow> (LLMTask \<Rightarrow> string) \<Rightarrow> Configurable \<Rightarrow> LLMTask \<Rightarrow> ModelLoadConfig" where
  "getBaseConfigForTask env defaults config task =
     (let selectedProvider = modelProvider config;
          defaultModelName0 = getDefaultModelForTask env defaults task;
          defaultModelName =
            (if truthyStr selectedProvider \<and> \<not> truthyStr (taskModelName config task) then
               (case getDefaultModelForProvider env (the selectedProvider) task of
                  Some providerModel \<Rightarrow> provider providerModel @ '':'' @ modelName providerModel
                | None \<Rightarrow> defaultModelName0)
             else defaultModelName0);
          taskConfigModelName =
            (case taskModelName config task of Some n \<Rightarrow> n | None \<Rightarrow> defaultModelName);
          taskConfigTemperature =
            (case taskTemperature config task of Some t \<Rightarrow> t | None \<Rightarrow> 0);
          modelStr =
            (if includes_str taskConfigModelName ''bedrock:'' then
               (case oldToNewMappings taskConfigModelName of
                  Some n \<Rightarrow> n | None \<Rightarrow> taskConfigModelName)
             else taskConfigModelName);
          parts = split (CHR '':'') modelStr;
          modelProviderPart = hd parts;
          modelNameParts0 = tl parts;
          extended = (case modelNameParts0 of [] \<Rightarrow> False | p # _ \<Rightarrow> p = ''extended-thinking'');
          modelNameParts = (if extended then tl modelNameParts0 else modelNameParts0);
          name = join_colon modelNameParts;
          thinking = (extended \<or> (modelProviderPart = ''openai'' \<and> startsWith name ''o''));
          tokens = (case configMaxTokens config of Some n \<Rightarrow> n | None \<Rightarrow> 10000)
      in if includes_str name ''gpt-5'' then
           \<lparr>provider = modelProviderPart, modelName = name,
            temperature = Some 1, maxTokens = None, max_completion_tokens = Some tokens,
            thinkingModel = Some thinking, thinkingBudgetTokens = Some THINKING_BUDGET_TOKENS\<rparr>
         else
           \<lparr>provider = modelProviderPart, modelName = name,
            temperature = Some taskConfigTemperature, maxTokens = Some tokens,
            max_completion_tokens = None,
            thinkingModel = Some thinking, thinkingBudgetTokens = Some THINKING_BUDGET_TOKENS\<rparr>)"

text \<open>
  The manager object and the \<open>selectedModel\<close> argument, both in scope of
  \<open>getModelConfigs\<close>.  Only \<open>_defaultConfig\<close> of the selected model is kept.
\<close>

record ModelManager =
  managerConfig :: ModelManagerConfig
  redisStore :: "RedisStore option"

record ConfigurableModel =
  defaultConfigProvider :: "string option"
  defaultConfigModel :: "string option"

definition getModelConfigs ::
  "ModelManager \<Rightarrow> ProcessEnv \<Rightarrow> (LLMTask \<Rightarrow> string) \<Rightarrow> Configurable \<Rightarrow> LLMTask
     \<Rightarrow> ConfigurableModel \<Rightarrow> ModelLoadConfig list" where
  "getModelConfigs this env defaults config task selectedModel =
     (let configs0 = [];
          baseConfig = getBaseConfigForTask env defaults config task;
          configs1 = configs0 @ [baseConfig];
          configs2 = configs1 @ [baseConfig];
          configs3 = configs2 @ [baseConfig]
      in configs3)"

subsection \<open>Model initialisation (model-manager.ts)\<close>

definition MAX_RETRIES :: int where
  "MAX_RETRIES = 3"

text \<open>The options object handed to \<open>initChatModel\<close>; an absent key is \<open>None\<close>.\<close>

record ModelOptions =
  optModelProvider :: Provider
  opt_max_retries :: int
  optApiKey :: "string option"
  optThinking :: "int option option"
  optMaxTokens :: "int option"
  opt_max_completion_tokens :: "int option"
  optTemperature :: "real option"
  opt_top_p :: "real option"

text \<open>
  A model identifier handed to BedrockChat.  The lookup \<open>bedrockModelMappings[name]\<close> is
  a property access on an object: for a name that is a property of \<open>Object.prototype\<close>
  it yields that inherited property, which is truthy and not a string.
\<close>

datatype ModelId = ModelId string | InheritedProperty string

definition objectPrototypeKeys :: "string list" where
  "objectPrototypeKeys =
     [''constructor'', ''hasOwnProperty'', ''isPrototypeOf'', ''propertyIsEnumerable'',
      ''toLocaleString'', ''toString'', ''valueOf'', ''__proto__'', ''__defineGetter__'',
      ''__defineSetter__'', ''__lookupGetter__'', ''__lookupSetter__'']"

text \<open>The three ways a model is constructed, with the arguments that reach the provider client.\<close>

datatype InitializedModel =
    BedrockChat (bedrockModel: ModelId) (bedrockRegion: string)
      (bedrockMaxTokens: "int option") (bedrockTemperature: "real option")
  | ChatAnthropic (anthropicModelName: string) (anthropicApiKey: "string option")
      (anthropicMaxTokens: "int option") (anthropicTopP: real)
      (anthropicThinking: "int option option")
  | InitChatModel (initModelName: string) (initOptions: ModelOptions)

definition bedrockModelMappings :: "string \<Rightarrow> string \<Rightarrow> ModelId option" where
  "bedrockModelMappings regionPrefix name =
     (if name \<in> set [''anthropic.claude-haiku-4-5-20251001-v1:0'',
                      ''anthropic.claude-sonnet-4-5-20250929-v1:0'',
                      ''anthropic.claude-opus-4-5-20251101-v1:0'',
                      ''us.anthropic.claude-haiku-4-5-20251001-v1:0'',
                      ''us.anthropic.claude-sonnet-4-5-20250929-v1:0'',
                      ''us.anthropic.claude-opus-4-5-20251101-v1:0'',
                      ''anthropic.claude-3-5-haiku-20241022-v1:0'',
                      ''anthropic.claude-3-5-sonnet-20240620-v1:0'']
      then Some (ModelId (regionPrefix @ ''.anthropic.claude-3-5-haiku-20241022-v1:0''))
      else if name \<in> set objectPrototypeKeys then Some (InheritedProperty name)
      else None)"

text \<open>
  The arguments with which the provider client is constructed, once the key lookup has
  returned \<open>apiKey\<close> (\<open>None\<close> for \<open>null\<close>).
\<close>

definition clientArguments ::
  "ProcessEnv \<Rightarrow> string option \<Rightarrow> ModelLoadConfig \<Rightarrow> InitializedModel" where
  "clientArguments env apiKey config =
     (let thinkingMaxTokens =
            (if truthy (thinkingBudgetTokens config)
             then Some (the (thinkingBudgetTokens config) * 4) else None);
          finalMaxTokens0 = (case maxTokens config of Some n \<Rightarrow> n | None \<Rightarrow> 10000);
          finalMaxTokens =
            (if includes_str (modelName config) ''claude-3-5-haiku''
             then (if finalMaxTokens0 > 8192 then 8192 else finalMaxTokens0)
             else finalMaxTokens0);
          correctedModelName =
            (if modelName config = ''claude-sonnet-4-5-20251101''
             then ''claude-sonnet-4-5-20250929'' else modelName config);
          isThinking = (thinkingModel config = Some True);
          base = \<lparr>optModelProvider = provider config, opt_max_retries = MAX_RETRIES,
                  optApiKey = (if truthyStr apiKey then apiKey else None),
                  optThinking = None, optMaxTokens = None,
                  opt_max_completion_tokens = None, optTemperature = None,
                  opt_top_p = None\<rparr>;
          modelOptions0 =
            (if isThinking \<and> provider config = ''anthropic'' then
               base\<lparr>optThinking := Some (thinkingBudgetTokens config),
                    optMaxTokens := thinkingMaxTokens\<rparr>
             else if includes_str correctedModelName ''gpt-5'' then
               base\<lparr>opt_max_completion_tokens := Some finalMaxTokens,
                    optTemperature := Some 1\<rparr>
             else
               base\<lparr>optMaxTokens := Some finalMaxTokens,
                    optTemperature :=
                      (if provider config = ''anthropic'' then None
                       else if \<not> isThinking then temperature config else None)\<rparr>);
          modelOptions =
            (if provider config = ''anthropic''
             then modelOptions0\<lparr>opt_top_p := Some 0, optTemperature := None\<rparr>
             else modelOptions0)
      in if provider config = ''bedrock'' then
           (let region = (if truthyStr (env ''AWS_REGION'')
                          then the (env ''AWS_REGION'') else ''us-east-1'');
                regionPrefix = (if startsWith region ''us'' then ''us''
                                else hd (split (CHR ''-'') region));
                finalModelName =
                  (case bedrockModelMappings regionPrefix correctedModelName of
                     Some mapped \<Rightarrow> mapped
                   | None \<Rightarrow>
                       if startsWith correctedModelName ''anthropic.claude''
                          \<and> \<not> (startsWith correctedModelName ''us.anthropic.''
                               \<or> startsWith correctedModelName ''eu.anthropic.''
                               \<or> startsWith correctedModelName ''ap.anthropic.'')
                       then ModelId (regionPrefix @ ''.'' @ correctedModelName)
                       else ModelId correctedModelName)
            in BedrockChat finalModelName region
                 (optMaxTokens modelOptions) (optTemperature modelOptions))
         else if provider config = ''anthropic'' then
           ChatAnthropic correctedModelName
             (if truthyStr apiKey then apiKey else None)
             (optMaxTokens modelOptions) 0 (optThinking modelOptions)
         else InitChatModel correctedModelName modelOptions)"

text \<open>
  \<open>getUserApiKey\<close> reads the user, the secrets key and the stored keys, and throws when one
  is missing; its outcome for a provider is the parameter \<open>getUserApiKey\<close>: the message
  thrown, or the key (\<open>None\<close> for \<open>null\<close>).  The constructors \<open>BedrockChat\<close>,
  \<open>ChatAnthropic\<close> and \<open>initChatModel\<close> are library code and may throw on the arguments
  they are given (no API key in the arguments or the environment, a model identifier that
  is not a string): their outcome is the parameter \<open>constructClient\<close>, the message thrown
  or \<open>None\<close> when the client is built.
\<close>

definition initializeModel ::
  "ProcessEnv \<Rightarrow> (Provider \<Rightarrow> string + string option) \<Rightarrow> (InitializedModel \<Rightarrow> string option)
     \<Rightarrow> ModelLoadConfig \<Rightarrow> string + InitializedModel" where
  "initializeModel env getUserApiKey constructClient config =
     (case getUserApiKey (provider config) of
        Inl message \<Rightarrow> Inl message
      | Inr apiKey \<Rightarrow>
          (case constructClient (clientArguments env apiKey config) of
             Some message \<Rightarrow> Inl message
           | None \<Rightarrow> Inr (clientArguments env apiKey config)))"

text \<open>The bound on output tokens that reaches the provider client.\<close>

fun maxOutputTokens :: "InitializedModel \<Rightarrow> int option" where
  "maxOutputTokens (BedrockChat m r mt t) = mt"
| "maxOutputTokens (ChatAnthropic m k mt p th) = mt"
| "maxOutputTokens (InitChatModel m opts) =
     (case opt_max_completion_tokens opts of Some n \<Rightarrow> Some n | None \<Rightarrow> optMaxTokens opts)"

subsection \<open>Message history and its repair (sanitizeHistory)\<close>

text \<open>
  A message is an object of any shape; the record keeps the properties the helpers look
  at.  \<open>className\<close> is \<open>constructor.name\<close> (an instance of \<open>ToolMessage\<close> has
  \<open>ToolMessage\<close> there), \<open>getType\<close> is the result of \<open>_getType()\<close> when the object
  has that method.
\<close>

record ToolCall =
  toolCallId :: "string option"
  toolCallName :: string

record Message =
  role :: "string option"
  msgType :: "string option"
  className :: "string option"
  getType :: "string option"
  tool_calls :: "ToolCall list option"
  tool_call_id :: "string option"
  content :: string
  name :: "string option"

datatype BaseLanguageModelInput = Messages "Message list" | NotArray string

definition hasToolCalls :: "Message \<Rightarrow> bool" where
  "hasToolCalls message =
     (case tool_calls message of None \<Rightarrow> False | Some calls \<Rightarrow> calls \<noteq> [])"

definition isAIMessageLike :: "Message \<Rightarrow> bool" where
  "isAIMessageLike message =
     (if role message = Some ''assistant'' \<or> msgType message = Some ''ai'' then True
      else if className message = Some ''AIMessage'' then True
      else if hasToolCalls message then True
      else (case getType message of Some t \<Rightarrow> t = ''ai'' | None \<Rightarrow> False))"

definition isToolMessageLike :: "Message \<Rightarrow> bool" where
  "isToolMessageLike message =
     (if className message = Some ''ToolMessage'' then True
      else role message = Some ''tool'' \<or> msgType message = Some ''tool'')"

definition INTERRUPTED_NOTICE :: string where
  "INTERRUPTED_NOTICE = ''Error: Tool execution interrupted or result missing. Please retry.''"

text \<open>\<open>new ToolMessage({tool_call_id: toolCall.id, content: ..., name: toolCall.name})\<close>\<close>

definition dummyToolResult :: "ToolCall \<Rightarrow> Message" where
  "dummyToolResult toolCall =
     \<lparr>role = None, msgType = None, className = Some ''ToolMessage'', getType = Some ''tool'',
      tool_calls = None, tool_call_id = toolCallId toolCall,
      content = INTERRUPTED_NOTICE, name = Some (toolCallName toolCall)\<rparr>"

text \<open>\<open>messages[i + 1]\<close>: undefined past the end.\<close>

definition nextMessage :: "Message list \<Rightarrow> nat \<Rightarrow> Message option" where
  "nextMessage messages i =
     (if i + 1 < length messages then Some (messages ! (i + 1)) else None)"

text \<open>What iteration \<open>i\<close> of the loop pushes onto \<open>sanitizedMessages\<close>.\<close>

definition pushed :: "Message list \<Rightarrow> nat \<Rightarrow> Message list" where
  "pushed messages i =
     (let message = messages ! i in
      message #
        (if isAIMessageLike message \<and> hasToolCalls message then
           (let missingNextMessage = (nextMessage messages i = None);
                nextMessageIsNotTool =
                  (case nextMessage messages i of
                     None \<Rightarrow> False | Some n \<Rightarrow> \<not> isToolMessageLike n)
            in if missingNextMessage \<or> nextMessageIsNotTool
               then map dummyToolResult (the (tool_calls message)) else [])
         else []))"

definition sanitizeMessages :: "Message list \<Rightarrow> Message list" where
  "sanitizeMessages messages = concat (map (pushed messages) [0..<length messages])"

definition sanitizeHistory :: "BaseLanguageModelInput \<Rightarrow> BaseLanguageModelInput" where
  "sanitizeHistory input =
     (case input of
        NotArray s \<Rightarrow> NotArray s
      | Messages messages \<Rightarrow> Messages (sanitizeMessages messages))"

subsection \<open>Invocation orchestrator (FallbackRunnable.invoke)\<close>

text \<open>
  What the orchestrator takes from outside: the process environment, the outcome of the
  API key lookup and of the construction of a client, the provider-specific messages, the
  provider call of the attempt made for candidate \<open>i\<close> (the message thrown, or the
  content of the result), and the instants at which isCircuitClosed, recordFailure and
  recordSuccess run for candidate \<open>i\<close>.
\<close>

record Env =
  processEnv :: ProcessEnv
  userApiKey :: "Provider \<Rightarrow> string + string option"
  constructClient :: "InitializedModel \<Rightarrow> string option"
  providerMessages :: "Provider \<rightharpoonup> Message list"
  providerCall :: "nat \<Rightarrow> InitializedModel \<Rightarrow> BaseLanguageModelInput \<Rightarrow> string + string"
  checkTime :: "nat \<Rightarrow> int"
  failTime :: "nat \<Rightarrow> int"
  successTime :: "nat \<Rightarrow> int"

definition useProviderMessages ::
  "BaseLanguageModelInput \<Rightarrow> (Provider \<rightharpoonup> Message list) \<Rightarrow> Provider \<Rightarrow> BaseLanguageModelInput" where
  "useProviderMessages initialInput pm p =
     (if p = [] \<or> pm p = None then initialInput else Messages (the (pm p)))"

definition isAuthError :: "string \<Rightarrow> bool" where
  "isAuthError errorMessage =
     (includes_str errorMessage ''401'' \<or>
      includes_str errorMessage ''Incorrect API key'' \<or>
      includes_str errorMessage ''API key'' \<or>
      includes_str errorMessage ''authentication'' \<or>
      includes_str errorMessage ''Invalid API key'')"

definition isConfigError :: "string \<Rightarrow> bool" where
  "isConfigError errorMessage =
     (includes_str errorMessage ''cannot be set to'' \<or>
      includes_str errorMessage ''invalid_request_error'' \<or>
      includes_str errorMessage ''Invalid parameter'')"

text \<open>
  What invoke throws: the new error of the authentication branch, the caught error thrown
  again as it is, the new error after the loop, and the error of getPrimaryModel.  Each
  carries its message.
\<close>

datatype InvokeError =
    AuthenticationFailed string
  | Rethrown string
  | AllExhausted string
  | NoPrimaryModel string

text \<open>
  \<open>this.primaryRunnable\<close>: bindings around a chat model (\<open>bound\<close>), unwrapped by
  getPrimaryModel, which throws when what is left has no \<open>_llmType\<close>.
\<close>

datatype PrimaryRunnable = Binding PrimaryRunnable | ChatModel ConfigurableModel | NoLlmType

fun getPrimaryModel :: "PrimaryRunnable \<Rightarrow> string + ConfigurableModel" where
  "getPrimaryModel (Binding current) = getPrimaryModel current"
| "getPrimaryModel (ChatModel model) = Inr model"
| "getPrimaryModel NoLlmType =
     Inl ''Could not extract primary model from runnable - no _llmType found''"

definition authenticationMessage :: "Provider \<Rightarrow> string \<Rightarrow> string" where
  "authenticationMessage p errorMessage =
     ''Authentication failed for '' @ p @
     ''. Please verify your API key is correct in Settings. Error: '' @ errorMessage"

definition exhaustedMessage :: "LLMTask \<Rightarrow> string option \<Rightarrow> string" where
  "exhaustedMessage task lastError =
     ''All fallback models exhausted for task '' @ taskValue task @ ''. Last error: '' @
     (case lastError of None \<Rightarrow> ''undefined'' | Some m \<Rightarrow> m)"

definition modelKeyOf :: "ModelLoadConfig \<Rightarrow> string" where
  "modelKeyOf modelConfig = provider modelConfig @ '':'' @ modelName modelConfig"

text \<open>The body of the \<open>try\<close> up to the provider's answer.\<close>

definition runAttempt ::
  "Env \<Rightarrow> nat \<Rightarrow> ModelLoadConfig \<Rightarrow> BaseLanguageModelInput \<Rightarrow> string + string" where
  "runAttempt env i modelConfig input =
     (case initializeModel (processEnv env) (userApiKey env) (constructClient env) modelConfig of
        Inl message \<Rightarrow> Inl message
      | Inr model \<Rightarrow>
          providerCall env i model
            (useProviderMessages input (providerMessages env) (provider modelConfig)))"

text \<open>
  The loop over the candidates, from index \<open>i\<close>.  The result is the outcome, the store
  and the indices of the candidates for which an attempt was made, in order.
\<close>

type_synonym InvokeResult = "(InvokeError + string) \<times> RedisStore option \<times> nat list"

fun invokeLoop ::
  "ModelManagerConfig \<Rightarrow> Env \<Rightarrow> LLMTask \<Rightarrow> BaseLanguageModelInput \<Rightarrow> nat
     \<Rightarrow> ModelLoadConfig list \<Rightarrow> RedisStore option \<Rightarrow> string option \<Rightarrow> InvokeResult" where
  "invokeLoop cfg env task input i [] r lastError =
     (Inl (AllExhausted (exhaustedMessage task lastError)), r, [])"
| "invokeLoop cfg env task input i (modelConfig # rest) r lastError =
     (let modelKey = modelKeyOf modelConfig;
          closed = fst (isCircuitClosed cfg r modelKey (checkTime env i));
          r1 = snd (isCircuitClosed cfg r modelKey (checkTime env i))
      in if \<not> closed then invokeLoop cfg env task input (Suc i) rest r1 lastError
         else (case runAttempt env i modelConfig input of
                 Inr result \<Rightarrow>
                   (Inr result, recordSuccess r1 modelKey (successTime env i), [i])
               | Inl errorMessage \<Rightarrow>
                   if isAuthError errorMessage then
                     (Inl (AuthenticationFailed
                            (authenticationMessage (provider modelConfig) errorMessage)), r1, [i])
                   else if \<not> isConfigError errorMessage \<and> rest \<noteq> [] then
                     (let next = invokeLoop cfg env task input (Suc i) rest
                                   (recordFailure cfg r1 modelKey (failTime env i))
                                   (Some errorMessage)
                      in (fst next, fst (snd next), i # snd (snd next)))
                   else (Inl (Rethrown errorMessage), r1, [i])))"

definition invoke ::
  "ModelManager \<Rightarrow> Env \<Rightarrow> (LLMTask \<Rightarrow> string) \<Rightarrow> Configurable \<Rightarrow> LLMTask
     \<Rightarrow> PrimaryRunnable \<Rightarrow> BaseLanguageModelInput \<Rightarrow> InvokeResult" where
  "invoke this env defaults config task primaryRunnable input =
     (let sanitizedInput = sanitizeHistory input in
      case getPrimaryModel primaryRunnable of
        Inl message \<Rightarrow> (Inl (NoPrimaryModel message), redisStore this, [])
      | Inr primaryModel \<Rightarrow>
          (let modelConfigs =
                 getModelConfigs this (processEnv env) defaults config task primaryModel
           in invokeLoop (managerConfig this) env task sanitizedInput 0 modelConfigs
                (redisStore this) None))"

text \<open>
  The revision in \<open>utils/runtime-fallback.ts\<close>: no repair of the history, and every error
  that is not an authentication error is thrown again at once.
\<close>

fun invokeLoop_runtime_fallback ::
  "ModelManagerConfig \<Rightarrow> Env \<Rightarrow> LLMTask \<Rightarrow> BaseLanguageModelInput \<Rightarrow> nat
     \<Rightarrow> ModelLoadConfig list \<Rightarrow> RedisStore option \<Rightarrow> string option \<Rightarrow> InvokeResult" where
  "invokeLoop_runtime_fallback cfg env task input i [] r lastError =
     (Inl (AllExhausted (exhaustedMessage task lastError)), r, [])"
| "invokeLoop_runtime_fallback cfg env task input i (modelConfig # rest) r lastError =
     (let modelKey = modelKeyOf modelConfig;
          closed = fst (isCircuitClosed cfg r modelKey (checkTime env i));
          r1 = snd (isCircuitClosed cfg r modelKey (checkTime env i))
      in if \<not> closed then invokeLoop_runtime_fallback cfg env task input (Suc i) rest r1 lastError
         else (case runAttempt env i modelConfig input of
                 Inr result \<Rightarrow>
                   (Inr result, recordSuccess r1 modelKey (successTime env i), [i])
               | Inl errorMessage \<Rightarrow>
                   if isAuthError errorMessage then
                     (Inl (AuthenticationFailed
                            (authenticationMessage (provider modelConfig) errorMessage)), r1, [i])
                   else (Inl (Rethrown errorMessage), r1, [i])))"

definition invoke_runtime_fallback ::
  "ModelManager \<Rightarrow> Env \<Rightarrow> (LLMTask \<Rightarrow> string) \<Rightarrow> Configurable \<Rightarrow> LLMTask
     \<Rightarrow> PrimaryRunnable \<Rightarrow> BaseLanguageModelInput \<Rightarrow> InvokeResult" where
  "invoke_runtime_fallback this env defaults config task primaryRunnable input =
     (case getPrimaryModel primaryRunnable of
        Inl message \<Rightarrow> (Inl (NoPrimaryModel message), redisStore this, [])
      | Inr primaryModel \<Rightarrow>
          (let modelConfigs =
                 getModelConfigs this (processEnv env) defaults config task primaryModel
           in invokeLoop_runtime_fallback (managerConfig this) env task input 0 modelConfigs
                (redisStore this) None))"

text \<open>The parts of a result.\<close>

definition outcome :: "InvokeResult \<Rightarrow> InvokeError + string" where
  "outcome res = fst res"

definition storeAfter :: "InvokeResult \<Rightarrow> RedisStore option" where
  "storeAfter res = fst (snd res)"

definition attempted :: "InvokeResult \<Rightarrow> nat list" where
  "attempted res = snd (snd res)"

subsection \<open>Scenarios for the examples\<close>

text \<open>
  No override in the configuration, the planner's default model of the shared table, a
  primary model object without a default configuration, and the manager with its default
  settings over a given store.
\<close>

definition noOverrides :: Configurable where
  "noOverrides = \<lparr>taskModelName = (\<lambda>_. None), taskTemperature = (\<lambda>_. None),
                  modelProvider = None, configMaxTokens = None\<rparr>"

definition tableDefaults :: "LLMTask \<Rightarrow> string" where
  "tableDefaults = (\<lambda>_. ''anthropic:claude-sonnet-4-5-20250929'')"

definition plainModel :: ConfigurableModel where
  "plainModel = \<lparr>defaultConfigProvider = None, defaultConfigModel = None\<rparr>"

definition defaultManager :: "RedisStore option \<Rightarrow> ModelManager" where
  "defaultManager r = \<lparr>managerConfig = DEFAULT_MODEL_MANAGER_CONFIG, redisStore = r\<rparr>"

text \<open>
  The rule of the ChatAnthropic constructor, used in the examples: it throws when there is
  no API key in its arguments and none in \<open>ANTHROPIC_API_KEY\<close>.  The other clients of
  the examples are built.
\<close>

definition anthropicKeyRule :: "ProcessEnv \<Rightarrow> InitializedModel \<Rightarrow> string option" where
  "anthropicKeyRule env model =
     (case model of
        ChatAnthropic n apiKey mt p th \<Rightarrow>
          if \<not> truthyStr apiKey \<and> \<not> truthyStr (env ''ANTHROPIC_API_KEY'')
          then Some ''Anthropic API key not found'' else None
      | _ \<Rightarrow> None)"

text \<open>
  An environment in which the user's API key is found, whose provider answers attempt
  \<open>i\<close> with \<open>answers i\<close>; the clock advances by 5 ms between the check and the outcome
  of a candidate and by 10 ms between candidates.
\<close>

definition scenarioEnv :: "(nat \<Rightarrow> string + string) \<Rightarrow> Env" where
  "scenarioEnv answers =
     \<lparr>processEnv = Map.empty, userApiKey = (\<lambda>_. Inr (Some ''sk-ant-user-key'')),
      constructClient = anthropicKeyRule Map.empty,
      providerMessages = Map.empty,
      providerCall = (\<lambda>i model input. answers i),
      checkTime = (\<lambda>i. 1000 + 10 * int i), failTime = (\<lambda>i. 1005 + 10 * int i),
      successTime = (\<lambda>i. 1005 + 10 * int i)\<rparr>"



subsection \<open>History token monitor and compactor\<close>

text \<open>
  Modelled from the spec: the conversation log (section 3).  The nodes that decide and
  perform the compaction (handle-completed-task.ts, summarize-history.ts) and the constant
  of tokens.ts are not among the embedded files.  An entry keeps its role and content; its
  index is its position.  The log is the ordered entries, the running token count and the
  marker of the last compaction: the number of entries up to and including the summary of
  the previous compaction, \<open>None\<close> when there was none.
\<close>

record LogEntry =
  entryRole :: string
  entryContent :: string

record ConversationLog =
  entries :: "LogEntry list"
  tokenCount :: int
  lastCompaction :: "nat option"

text \<open>Modelled from the spec: the ceiling of 80,000 tokens and the 20 most recent entries (K = 20).\<close>

definition MAX_INTERNAL_TOKENS :: int where
  "MAX_INTERNAL_TOKENS = 80000"

definition KEEP_RECENT :: nat where
  "KEEP_RECENT = 20"

text \<open>
  Modelled from the spec: the two synthetic entries, an assistant-role notice that the
  history was condensed and a tool-role entry carrying the summary text.
\<close>

definition condensedNotice :: LogEntry where
  "condensedNotice =
     \<lparr>entryRole = ''assistant'',
      entryContent = ''History condensed due to space constraints.''\<rparr>"

definition summaryEntry :: "string \<Rightarrow> LogEntry" where
  "summaryEntry summary = \<lparr>entryRole = ''tool'', entryContent = summary\<rparr>"

text \<open>
  Modelled from the spec: the eligible span, the entries strictly after the marker and
  strictly before the last 20.
\<close>

definition spanStart :: "ConversationLog \<Rightarrow> nat" where
  "spanStart convLog = (case lastCompaction convLog of None \<Rightarrow> 0 | Some marker \<Rightarrow> marker)"

definition spanStop :: "ConversationLog \<Rightarrow> nat" where
  "spanStop convLog = length (entries convLog) - KEEP_RECENT"

definition eligibleSpan :: "ConversationLog \<Rightarrow> LogEntry list" where
  "eligibleSpan convLog =
     take (spanStop convLog - spanStart convLog) (drop (spanStart convLog) (entries convLog))"

text \<open>
  Modelled from the spec: \<open>monitorAndCompact\<close> (section 4.4).  Under the ceiling, or with
  an empty span, the log is returned and no model is called; otherwise the summarizer is
  called once on the span (the parameter \<open>summarize\<close>), the span is replaced by the two
  synthetic entries and the marker moves past them.  The second component of the result
  counts the model calls.  The spec does not say what becomes of the token count after a
  compaction: it is left as it is.
\<close>

definition monitorAndCompact ::
  "int \<Rightarrow> (LogEntry list \<Rightarrow> string) \<Rightarrow> ConversationLog \<Rightarrow> ConversationLog \<times> nat" where
  "monitorAndCompact threshold summarize convLog =
     (if tokenCount convLog < threshold then (convLog, 0)
      else if eligibleSpan convLog = [] then (convLog, 0)
      else (convLog\<lparr>entries := take (spanStart convLog) (entries convLog)
                                  @ [condensedNotice, summaryEntry (summarize (eligibleSpan convLog))]
                                  @ drop (spanStop convLog) (entries convLog),
                      lastCompaction := Some (spanStart convLog + 2)\<rparr>, 1))"

text \<open>A log of 120 distinct entries with 80001 tokens and no marker.\<close>

definition scenarioLog :: ConversationLog where
  "scenarioLog =
     \<lparr>entries = map (\<lambda>n. \<lparr>entryRole = ''tool'', entryContent = replicate n (CHR ''x'')\<rparr>) [0..<120],
      tokenCount = 80001, lastCompaction = None\<rparr>"

section \<open>Properties\<close>

subsection \<open>Reading a circuit after each operation\<close>

lemma circuitOf_unavailable: "circuitOf None k t = defaultState"
  by (simp add: circuitOf_def getCircuitState_def)

lemma available_get: "(snd (getCircuitState r k now) = None) = (r = None)"
  by (simp add: getCircuitState_def saveCircuitState_def split: option.split)

lemma available_save: "(saveCircuitState r k s now = None) = (r = None)"
  by (simp add: saveCircuitState_def split: option.split)

lemma key_inj: "(getCircuitBreakerKey k = getCircuitBreakerKey k') = (k = k')"
  by (simp add: getCircuitBreakerKey_def)

lemma circuitOf_saved:
  "circuitOf (saveCircuitState r k s now) k' t =
     (if r = None then defaultState
      else if k' = k then (if t \<le> now + 86400000 then s else defaultState)
      else circuitOf r k' t)"
  by (auto simp: circuitOf_def getCircuitState_def saveCircuitState_def getJSON_def setJSON_def
        key_inj split: option.split)

lemma circuitOf_got_other:
  "k' \<noteq> k \<Longrightarrow> circuitOf (snd (getCircuitState r k now)) k' t = circuitOf r k' t"
  by (auto simp: circuitOf_def getCircuitState_def saveCircuitState_def getJSON_def setJSON_def
        key_inj split: option.split)

lemma circuitOf_got_later:
  "now \<le> t \<Longrightarrow> circuitOf (snd (getCircuitState r k now)) k' t = circuitOf r k' t"
  by (auto simp: circuitOf_def getCircuitState_def saveCircuitState_def getJSON_def setJSON_def
        key_inj split: option.splits if_splits)

lemma circuitOf_got_cases:
  "circuitOf (snd (getCircuitState r k now)) k' t = circuitOf r k' t
   \<or> circuitOf (snd (getCircuitState r k now)) k' t = defaultState"
  by (auto simp: circuitOf_def getCircuitState_def saveCircuitState_def getJSON_def setJSON_def
        key_inj split: option.splits if_splits)

lemma getCircuitState_fst: "fst (getCircuitState r k now) = circuitOf r k now"
  by (simp add: circuitOf_def)

lemma circuitOf_recordFailure:
  "circuitOf (recordFailure cfg r k now) k' t =
     (if r = None then defaultState
      else if k' = k then
        (if t \<le> now + 86400000 then
           (let s = circuitOf r k now;
                s1 = s\<lparr>lastFailureTime := now, failureCount := failureCount s + 1\<rparr>
            in if failureCount s1 \<ge> circuitBreakerFailureThreshold cfg
               then s1\<lparr>state := OPEN, openedAt := Some now\<rparr> else s1)
         else defaultState)
      else circuitOf r k' t)"
  by (simp add: recordFailure_def split_beta circuitOf_saved circuitOf_got_other available_get
        getCircuitState_fst Let_def)

lemma circuitOf_recordSuccess:
  "circuitOf (recordSuccess r k now) k' t =
     (if r = None then defaultState
      else if k' = k then
        (if t \<le> now + 86400000
         then (circuitOf r k now)\<lparr>state := CLOSED, failureCount := 0, openedAt := None\<rparr>
         else defaultState)
      else circuitOf r k' t)"
  by (simp add: recordSuccess_def split_beta circuitOf_saved circuitOf_got_other available_get
        getCircuitState_fst)

lemma available_recordFailure: "(recordFailure cfg r k now = None) = (r = None)"
  by (simp add: recordFailure_def split_beta available_save available_get Let_def)

lemma isCircuitClosed_fst:
  "fst (isCircuitClosed cfg r k now) =
     (let s = circuitOf r k now in
      state s = CLOSED \<or> (truthy (openedAt s) \<and> now - the (openedAt s) \<ge> circuitBreakerTimeoutMs cfg))"
  by (cases "state (circuitOf r k now)")
     (auto simp: isCircuitClosed_def split_beta Let_def circuitOf_def)

lemma circuitOf_isCircuitClosed:
  "circuitOf (snd (isCircuitClosed cfg r k now)) k' t =
     (let s = circuitOf r k now in
      if state s = OPEN \<and> truthy (openedAt s)
         \<and> now - the (openedAt s) \<ge> circuitBreakerTimeoutMs cfg
      then (if k' = k
            then (if t \<le> now + 86400000
                  then s\<lparr>state := CLOSED, failureCount := 0, openedAt := None\<rparr>
                  else defaultState)
            else circuitOf r k' t)
      else circuitOf (snd (getCircuitState r k now)) k' t)"
proof (cases "state (circuitOf r k now)")
  case CLOSED
  then show ?thesis
    by (simp add: isCircuitClosed_def split_beta Let_def getCircuitState_fst)
next
  case OPEN
  then have "r \<noteq> None"
    by (cases r) (auto simp: circuitOf_unavailable defaultState_def)
  with OPEN show ?thesis
    by (auto simp: isCircuitClosed_def split_beta Let_def getCircuitState_fst circuitOf_saved
          circuitOf_got_other available_get)
qed

lemma present_when_open:
  "state (circuitOf r k now) = OPEN \<Longrightarrow> getCircuitState r k now = (circuitOf r k now, r)"
  by (auto simp: circuitOf_def getCircuitState_def defaultState_def split: option.splits)

lemma isCircuitClosed_false_store:
  "\<not> fst (isCircuitClosed cfg r k now) \<Longrightarrow> snd (isCircuitClosed cfg r k now) = r"
proof -
  assume a: "\<not> fst (isCircuitClosed cfg r k now)"
  then have "state (circuitOf r k now) \<noteq> CLOSED" by (simp add: isCircuitClosed_fst Let_def)
  then have o: "state (circuitOf r k now) = OPEN" by (cases "state (circuitOf r k now)") auto
  from a o show ?thesis
    by (auto simp: isCircuitClosed_def present_when_open Let_def isCircuitClosed_fst)
qed

subsection \<open>The breaker opens at the threshold\<close>





subsection \<open>Recovery after the timeout, reset on success\<close>

text \<open>
  C4.  For a key whose circuit is OPEN with openedAt set (the test the code makes,
  \<open>state.openedAt\<close>: present and non-zero): before the timeout has elapsed
  isCircuitClosed answers false and returns the store as it was; once
  now - openedAt \<ge> circuitBreakerTimeoutMs it answers true and the circuit is CLOSED
  with failureCount 0 and no openedAt.  recordSuccess leaves the circuit of its key CLOSED
  with failureCount 0 and no openedAt, whatever it was before.
\<close>

theorem isCircuitClosed_recovers_after_timeout:
  assumes "state (circuitOf r k now) = OPEN" and "truthy (openedAt (circuitOf r k now))"
  shows "(now - the (openedAt (circuitOf r k now)) < circuitBreakerTimeoutMs cfg \<longrightarrow>
            isCircuitClosed cfg r k now = (False, r))
       \<and> (now - the (openedAt (circuitOf r k now)) \<ge> circuitBreakerTimeoutMs cfg \<longrightarrow>
            fst (isCircuitClosed cfg r k now) = True
          \<and> circuitOf (snd (isCircuitClosed cfg r k now)) k now =
               (circuitOf r k now)\<lparr>state := CLOSED, failureCount := 0, openedAt := None\<rparr>
          \<and> (t - now < 86400000 \<longrightarrow>
               circuitOf (snd (isCircuitClosed cfg r k now)) k t =
                 (circuitOf r k now)\<lparr>state := CLOSED, failureCount := 0, openedAt := None\<rparr>))
       \<and> state (circuitOf (recordSuccess r' k' now') k' t') = CLOSED
       \<and> failureCount (circuitOf (recordSuccess r' k' now') k' t') = 0
       \<and> openedAt (circuitOf (recordSuccess r' k' now') k' t') = None"
proof -
  have early: "now - the (openedAt (circuitOf r k now)) < circuitBreakerTimeoutMs cfg \<longrightarrow>
            isCircuitClosed cfg r k now = (False, r)"
    using assms by (simp add: isCircuitClosed_def present_when_open Let_def)
  have late: "now - the (openedAt (circuitOf r k now)) \<ge> circuitBreakerTimeoutMs cfg \<longrightarrow>
            fst (isCircuitClosed cfg r k now) = True
          \<and> circuitOf (snd (isCircuitClosed cfg r k now)) k now =
               (circuitOf r k now)\<lparr>state := CLOSED, failureCount := 0, openedAt := None\<rparr>
          \<and> (t - now < 86400000 \<longrightarrow>
               circuitOf (snd (isCircuitClosed cfg r k now)) k t =
                 (circuitOf r k now)\<lparr>state := CLOSED, failureCount := 0, openedAt := None\<rparr>)"
    using assms by (simp add: isCircuitClosed_fst circuitOf_isCircuitClosed Let_def)
  have succ: "state (circuitOf (recordSuccess r' k' now') k' t') = CLOSED
       \<and> failureCount (circuitOf (recordSuccess r' k' now') k' t') = 0
       \<and> openedAt (circuitOf (recordSuccess r' k' now') k' t') = None"
    by (simp add: circuitOf_recordSuccess defaultState_def)
  from early late succ show ?thesis by blast
qed

theorem isCircuitClosed_recovers_after_timeout_witness:
  "state (circuitOf (Some [''circuit_breaker:openai:gpt-5-codex'' \<mapsto>
        (\<lparr>state = OPEN, failureCount = 2, lastFailureTime = 2000, openedAt = Some 2000\<rparr>, 86402000)])
        ''openai:gpt-5-codex'' 181999) = OPEN
   \<and> truthy (openedAt (circuitOf (Some [''circuit_breaker:openai:gpt-5-codex'' \<mapsto>
        (\<lparr>state = OPEN, failureCount = 2, lastFailureTime = 2000, openedAt = Some 2000\<rparr>, 86402000)])
        ''openai:gpt-5-codex'' 181999))
   \<and> isCircuitClosed DEFAULT_MODEL_MANAGER_CONFIG (Some [''circuit_breaker:openai:gpt-5-codex'' \<mapsto>
        (\<lparr>state = OPEN, failureCount = 2, lastFailureTime = 2000, openedAt = Some 2000\<rparr>, 86402000)])
        ''openai:gpt-5-codex'' 181999
       = (False, Some [''circuit_breaker:openai:gpt-5-codex'' \<mapsto>
        (\<lparr>state = OPEN, failureCount = 2, lastFailureTime = 2000, openedAt = Some 2000\<rparr>, 86402000)])
   \<and> fst (isCircuitClosed DEFAULT_MODEL_MANAGER_CONFIG (Some [''circuit_breaker:openai:gpt-5-codex'' \<mapsto>
        (\<lparr>state = OPEN, failureCount = 2, lastFailureTime = 2000, openedAt = Some 2000\<rparr>, 86402000)])
        ''openai:gpt-5-codex'' 182000) = True
   \<and> circuitOf (snd (isCircuitClosed DEFAULT_MODEL_MANAGER_CONFIG (Some [''circuit_breaker:openai:gpt-5-codex'' \<mapsto>
        (\<lparr>state = OPEN, failureCount = 2, lastFailureTime = 2000, openedAt = Some 2000\<rparr>, 86402000)])
        ''openai:gpt-5-codex'' 182000)) ''openai:gpt-5-codex'' 182000
       = \<lparr>state = CLOSED, failureCount = 0, lastFailureTime = 2000, openedAt = None\<rparr>"
proof -
  let ?r = "Some [''circuit_breaker:openai:gpt-5-codex'' \<mapsto>
        (\<lparr>state = OPEN, failureCount = 2, lastFailureTime = 2000, openedAt = Some 2000\<rparr>,
         86402000::int)]"
  have c: "circuitOf ?r ''openai:gpt-5-codex'' 181999 =
        \<lparr>state = OPEN, failureCount = 2, lastFailureTime = 2000, openedAt = Some 2000\<rparr>"
      "circuitOf ?r ''openai:gpt-5-codex'' 182000 =
        \<lparr>state = OPEN, failureCount = 2, lastFailureTime = 2000, openedAt = Some 2000\<rparr>"
    by (simp_all add: circuitOf_def getCircuitState_def getJSON_def getCircuitBreakerKey_def
          CIRCUIT_BREAKER_PREFIX_def)
  have h1: "state (circuitOf ?r ''openai:gpt-5-codex'' 181999) = OPEN"
    and h1': "state (circuitOf ?r ''openai:gpt-5-codex'' 182000) = OPEN" by (simp_all add: c)
  have h2: "truthy (openedAt (circuitOf ?r ''openai:gpt-5-codex'' 181999))"
    and h2': "truthy (openedAt (circuitOf ?r ''openai:gpt-5-codex'' 182000))"
    by (simp_all add: c truthy_def)
  have t: "circuitBreakerTimeoutMs DEFAULT_MODEL_MANAGER_CONFIG = 180000"
    by (simp add: DEFAULT_MODEL_MANAGER_CONFIG_def)
  show ?thesis
    using isCircuitClosed_recovers_after_timeout [OF h1 h2, of DEFAULT_MODEL_MANAGER_CONFIG]
          isCircuitClosed_recovers_after_timeout [OF h1' h2', of DEFAULT_MODEL_MANAGER_CONFIG]
          h1 h2
    by (simp add: c t)
qed

subsection \<open>The invariant of the circuit state\<close>

lemma circuitInvariant_default: "circuitInvariant defaultState"
  by (simp add: circuitInvariant_def defaultState_def)

lemma applyOp_invariant:
  assumes "\<forall>k t. circuitInvariant (circuitOf r k t)"
  shows "circuitInvariant (circuitOf (applyOp cfg r op) k t)"
proof (cases op)
  case (RecordFailure k' now)
  then show ?thesis using assms
    by (auto simp: circuitOf_recordFailure circuitInvariant_default Let_def)
       (auto simp: circuitInvariant_def)
next
  case (RecordSuccess k' now)
  then show ?thesis using assms
    by (auto simp: circuitOf_recordSuccess circuitInvariant_default)
       (auto simp: circuitInvariant_def)
next
  case (IsCircuitClosed k' now)
  have g: "circuitInvariant (circuitOf (snd (getCircuitState r k' now)) k t)"
    using circuitOf_got_cases [of r k' now k t] assms circuitInvariant_default by auto
  have c: "circuitInvariant ((circuitOf r k' now)\<lparr>state := CLOSED, failureCount := 0, openedAt := None\<rparr>)"
    by (simp add: circuitInvariant_def)
  from IsCircuitClosed show ?thesis using assms g c
    by (simp add: circuitOf_isCircuitClosed Let_def circuitInvariant_default)
qed

lemma applyOps_invariant:
  "\<forall>k t. circuitInvariant (circuitOf r k t) \<Longrightarrow> circuitInvariant (circuitOf (applyOps cfg r ops) k t)"
proof (induction ops arbitrary: r)
  case Nil
  then show ?case by simp
next
  case (Cons op ops)
  have "\<forall>k t. circuitInvariant (circuitOf (applyOp cfg r op) k t)"
    using applyOp_invariant [OF Cons.prems] by blast
  from Cons.IH [OF this] show ?case by simp
qed

lemma fresh_invariant:
  "circuitInvariant (circuitOf (Some Map.empty) k t)" "circuitInvariant (circuitOf None k t)"
  by (simp_all add: circuitOf_def getCircuitState_def getJSON_def circuitInvariant_default)

text \<open>
  C9.  The invariant (OPEN implies openedAt present, CLOSED implies openedAt absent) holds
  for the default state; recordFailure, recordSuccess and isCircuitClosed keep it for every
  key, and so does every sequence of them, in particular from a fresh store, available or
  not, at whatever time the circuit is read.
\<close>

theorem circuit_invariant_preserved:
  "circuitInvariant defaultState
   \<and> circuitInvariant (circuitOf (applyOps cfg (Some Map.empty) ops) k t)
   \<and> circuitInvariant (circuitOf (applyOps cfg None ops) k t)
   \<and> ((\<forall>k' t'. circuitInvariant (circuitOf r k' t')) \<longrightarrow>
        circuitInvariant (circuitOf (recordFailure cfg r k0 now) k t)
      \<and> circuitInvariant (circuitOf (recordSuccess r k0 now) k t)
      \<and> circuitInvariant (circuitOf (snd (isCircuitClosed cfg r k0 now)) k t)
      \<and> circuitInvariant (circuitOf (applyOps cfg r ops) k t))"
proof -
  have a: "circuitInvariant (circuitOf (applyOps cfg (Some Map.empty) ops) k t)"
    by (rule applyOps_invariant) (simp add: fresh_invariant)
  have b: "circuitInvariant (circuitOf (applyOps cfg None ops) k t)"
    by (rule applyOps_invariant) (simp add: fresh_invariant)
  have c: "(\<forall>k' t'. circuitInvariant (circuitOf r k' t')) \<longrightarrow>
        circuitInvariant (circuitOf (recordFailure cfg r k0 now) k t)
      \<and> circuitInvariant (circuitOf (recordSuccess r k0 now) k t)
      \<and> circuitInvariant (circuitOf (snd (isCircuitClosed cfg r k0 now)) k t)
      \<and> circuitInvariant (circuitOf (applyOps cfg r ops) k t)"
    using applyOp_invariant [of r cfg "RecordFailure k0 now" k t]
          applyOp_invariant [of r cfg "RecordSuccess k0 now" k t]
          applyOp_invariant [of r cfg "IsCircuitClosed k0 now" k t]
          applyOps_invariant [of r cfg ops k t]
    by simp
  from circuitInvariant_default a b c show ?thesis by blast
qed

theorem circuit_invariant_preserved_witness:
  "(\<forall>k' t'. circuitInvariant (circuitOf (Some Map.empty) k' t'))
   \<and> circuitInvariant (circuitOf (applyOps DEFAULT_MODEL_MANAGER_CONFIG (Some Map.empty)
        [RecordFailure ''openai:gpt-5-codex'' 1000, RecordFailure ''openai:gpt-5-codex'' 2000,
         IsCircuitClosed ''openai:gpt-5-codex'' 182000, RecordSuccess ''openai:gpt-5-codex'' 183000])
        ''openai:gpt-5-codex'' 184000)
   \<and> state (circuitOf (applyOps DEFAULT_MODEL_MANAGER_CONFIG (Some Map.empty)
        [RecordFailure ''openai:gpt-5-codex'' 1000, RecordFailure ''openai:gpt-5-codex'' 2000])
        ''openai:gpt-5-codex'' 3000) = OPEN"
proof -
  have h: "\<forall>k' t'. circuitInvariant (circuitOf (Some Map.empty) k' t')"
    by (simp add: fresh_invariant)
  have s: "state (circuitOf (applyOps DEFAULT_MODEL_MANAGER_CONFIG (Some Map.empty)
        [RecordFailure ''openai:gpt-5-codex'' 1000, RecordFailure ''openai:gpt-5-codex'' 2000])
        ''openai:gpt-5-codex'' 3000) = OPEN"
    by (simp add: circuitOf_recordFailure available_recordFailure Let_def
          DEFAULT_MODEL_MANAGER_CONFIG_def)
       (simp add: circuitOf_def getCircuitState_def getJSON_def defaultState_def)
  show ?thesis
    using circuit_invariant_preserved [of DEFAULT_MODEL_MANAGER_CONFIG
        "[RecordFailure ''openai:gpt-5-codex'' 1000, RecordFailure ''openai:gpt-5-codex'' 2000,
         IsCircuitClosed ''openai:gpt-5-codex'' 182000, RecordSuccess ''openai:gpt-5-codex'' 183000]"
        "''openai:gpt-5-codex''" 184000 "Some Map.empty"] h s
    by blast
qed

subsection \<open>The resolver\<close>

lemma split_nonempty: "split sep s \<noteq> []"
  by (induction s) (auto split: list.split)

text \<open>
  C5.  For every task and configuration the resolver returns exactly three entries, each
  the base configuration of the task: the list is not empty, its head is the primary
  candidate, and every entry has the primary's provider (no candidate of another provider).
\<close>

theorem getModelConfigs_three_copies:
  "getModelConfigs this env defaults config task selectedModel =
      replicate 3 (getBaseConfigForTask env defaults config task)
   \<and> getModelConfigs this env defaults config task selectedModel \<noteq> []
   \<and> length (getModelConfigs this env defaults config task selectedModel) = 3
   \<and> hd (getModelConfigs this env defaults config task selectedModel)
        = getBaseConfigForTask env defaults config task
   \<and> list_all (\<lambda>c. c = getBaseConfigForTask env defaults config task)
        (getModelConfigs this env defaults config task selectedModel)
   \<and> list_all (\<lambda>c. provider c = provider (getBaseConfigForTask env defaults config task))
        (getModelConfigs this env defaults config task selectedModel)"
  by (simp add: getModelConfigs_def Let_def numeral_3_eq_3)

text \<open>
  C8.  Two resolution runs with the same configurable values, the same environment table
  and the same default table return the same ordered list, whatever the manager (its
  breaker store and settings) and the selected model are: the list is a function of the
  task, the configuration and the two tables alone.
\<close>

theorem getModelConfigs_deterministic:
  "getModelConfigs this1 env defaults config task selectedModel1
     = getModelConfigs this2 env defaults config task selectedModel2"
  by (simp add: getModelConfigs_def)

subsection \<open>The bound on output tokens\<close>

lemma correctedModelName_gpt5:
  "includes_str (if modelName config = ''claude-sonnet-4-5-20251101''
             then ''claude-sonnet-4-5-20250929'' else modelName config) ''gpt-5''
        = includes_str (modelName config) ''gpt-5''"
  by (simp add: startsWith_def)

lemma clientArguments_capped:
  assumes "includes_str (modelName config) ''claude-3-5-haiku''"
    and "\<not> (thinkingModel config = Some True \<and> provider config = ''anthropic'')"
    and "includes_str (modelName config) ''gpt-5'' \<longrightarrow>
           provider config \<noteq> ''anthropic'' \<and> provider config \<noteq> ''bedrock''"
  shows "maxOutputTokens (clientArguments env apiKey config) =
           Some (min (case maxTokens config of Some n \<Rightarrow> n | None \<Rightarrow> 10000) 8192)"
  using assms
  unfolding clientArguments_def Let_def correctedModelName_gpt5
  by (auto simp: min_def split: option.splits)

lemma clientArguments_unchanged:
  assumes "\<not> includes_str (modelName config) ''claude-3-5-haiku''"
    and "\<not> includes_str (modelName config) ''gpt-5''"
    and "thinkingModel config \<noteq> Some True"
  shows "maxOutputTokens (clientArguments env apiKey config) =
           Some (case maxTokens config of Some n \<Rightarrow> n | None \<Rightarrow> 10000)"
  using assms
  unfolding clientArguments_def Let_def correctedModelName_gpt5
  by (auto split: option.splits)

text \<open>
  C10 (amended).  When the key lookup returns, the provider client is constructed with
  these arguments, and initializeModel returns the client when the constructor accepts
  them and throws the constructor's error when it does not.  For a model name containing
  claude-3-5-haiku the bound on output tokens in the arguments is the minimum of the
  requested maxTokens (10000 when unspecified) and 8192, unless the call is a
  thinking-model call on provider anthropic, or the name also contains gpt-5 and the
  provider is anthropic or bedrock.  For every other model that is neither a gpt-5 model
  nor a thinking model the requested maxTokens (10000 when unspecified) is passed unchanged.
\<close>

theorem initializeModel_max_tokens:
  assumes "getUserApiKey (provider config) = Inr apiKey"
  shows "(includes_str (modelName config) ''claude-3-5-haiku''
          \<and> \<not> (thinkingModel config = Some True \<and> provider config = ''anthropic'')
          \<and> (includes_str (modelName config) ''gpt-5'' \<longrightarrow>
                provider config \<noteq> ''anthropic'' \<and> provider config \<noteq> ''bedrock'')
          \<longrightarrow> maxOutputTokens (clientArguments env apiKey config) =
                Some (min (case maxTokens config of Some n \<Rightarrow> n | None \<Rightarrow> 10000) 8192))
       \<and> (\<not> includes_str (modelName config) ''claude-3-5-haiku''
          \<and> \<not> includes_str (modelName config) ''gpt-5''
          \<and> thinkingModel config \<noteq> Some True
          \<longrightarrow> maxOutputTokens (clientArguments env apiKey config) =
                Some (case maxTokens config of Some n \<Rightarrow> n | None \<Rightarrow> 10000))
       \<and> (newClient (clientArguments env apiKey config) = None \<longrightarrow>
            initializeModel env getUserApiKey newClient config =
              Inr (clientArguments env apiKey config))
       \<and> (\<forall>message. newClient (clientArguments env apiKey config) = Some message \<longrightarrow>
            initializeModel env getUserApiKey newClient config = Inl message)"
proof -
  have a: "newClient (clientArguments env apiKey config) = None \<longrightarrow>
            initializeModel env getUserApiKey newClient config =
              Inr (clientArguments env apiKey config)"
    by (simp add: initializeModel_def assms)
  have b: "\<forall>message. newClient (clientArguments env apiKey config) = Some message \<longrightarrow>
            initializeModel env getUserApiKey newClient config = Inl message"
    by (simp add: initializeModel_def assms)
  from clientArguments_capped [of config env apiKey]
       clientArguments_unchanged [of config env apiKey] a b
  show ?thesis by blast
qed

theorem initializeModel_max_tokens_witness:
  "initializeModel Map.empty (\<lambda>_. Inr (Some ''sk-ant-user-key'')) (anthropicKeyRule Map.empty)
        \<lparr>provider = ''anthropic'', modelName = ''claude-3-5-haiku-20241022'',
         temperature = Some 0, maxTokens = Some 10000, max_completion_tokens = None,
         thinkingModel = Some False, thinkingBudgetTokens = Some 5000\<rparr>
      = Inr (ChatAnthropic ''claude-3-5-haiku-20241022'' (Some ''sk-ant-user-key'') (Some 8192) 0 None)
   \<and> maxOutputTokens (clientArguments Map.empty (Some ''sk-ant-user-key'')
        \<lparr>provider = ''anthropic'', modelName = ''claude-3-5-haiku-20241022'',
         temperature = Some 0, maxTokens = Some 10000, max_completion_tokens = None,
         thinkingModel = Some False, thinkingBudgetTokens = Some 5000\<rparr>) = Some 8192
   \<and> maxOutputTokens (clientArguments Map.empty None
        \<lparr>provider = ''google-genai'', modelName = ''gemini-2.5-pro'',
         temperature = Some 0, maxTokens = Some 10000, max_completion_tokens = None,
         thinkingModel = Some False, thinkingBudgetTokens = Some 5000\<rparr>) = Some 10000
   \<and> initializeModel Map.empty (\<lambda>_. Inr None) (anthropicKeyRule Map.empty)
        \<lparr>provider = ''anthropic'', modelName = ''claude-3-5-haiku-20241022'',
         temperature = Some 0, maxTokens = Some 10000, max_completion_tokens = None,
         thinkingModel = Some False, thinkingBudgetTokens = Some 5000\<rparr>
      = Inl ''Anthropic API key not found''"
proof -
  let ?haiku = "\<lparr>provider = ''anthropic'', modelName = ''claude-3-5-haiku-20241022'',
         temperature = Some (0::real), maxTokens = Some (10000::int),
         max_completion_tokens = (None::int option),
         thinkingModel = Some False, thinkingBudgetTokens = Some (5000::int)\<rparr>"
  let ?gemini = "\<lparr>provider = ''google-genai'', modelName = ''gemini-2.5-pro'',
         temperature = Some (0::real), maxTokens = Some (10000::int),
         max_completion_tokens = (None::int option),
         thinkingModel = Some False, thinkingBudgetTokens = Some (5000::int)\<rparr>"
  have g1: "\<not> includes_str ''claude-3-5-haiku-20241022'' ''gpt-5''"
    by (simp add: startsWith_def)
  have g2: "\<not> includes_str ''gemini-2.5-pro'' ''gpt-5''"
    by (simp add: startsWith_def)
  have h1: "includes_str ''claude-3-5-haiku-20241022'' ''claude-3-5-haiku''"
    by (simp add: startsWith_def)
  have h2: "\<not> includes_str ''gemini-2.5-pro'' ''claude-3-5-haiku''"
    by (simp add: startsWith_def)
  have a1: "clientArguments Map.empty (Some ''sk-ant-user-key'') ?haiku
      = ChatAnthropic ''claude-3-5-haiku-20241022'' (Some ''sk-ant-user-key'') (Some 8192) 0 None"
    by (simp add: clientArguments_def Let_def truthy_def truthyStr_def g1 h1
          del: includes_str.simps)
  have a2: "clientArguments Map.empty None ?haiku
      = ChatAnthropic ''claude-3-5-haiku-20241022'' None (Some 8192) 0 None"
    by (simp add: clientArguments_def Let_def truthy_def truthyStr_def g1 h1
          del: includes_str.simps)
  have k1: "anthropicKeyRule Map.empty
      (ChatAnthropic ''claude-3-5-haiku-20241022'' (Some ''sk-ant-user-key'') (Some 8192) 0 None) = None"
    by (simp add: anthropicKeyRule_def truthyStr_def)
  have k2: "anthropicKeyRule Map.empty
      (ChatAnthropic ''claude-3-5-haiku-20241022'' None (Some 8192) 0 None)
        = Some ''Anthropic API key not found''"
    by (simp add: anthropicKeyRule_def truthyStr_def)
  show ?thesis
    using initializeModel_max_tokens [of "\<lambda>_. Inr (Some ''sk-ant-user-key'')" ?haiku
             "Some ''sk-ant-user-key''" Map.empty "anthropicKeyRule Map.empty"]
          initializeModel_max_tokens [of "\<lambda>_. Inr None" ?gemini None Map.empty
             "anthropicKeyRule Map.empty"]
          initializeModel_max_tokens [of "\<lambda>_. Inr None" ?haiku None Map.empty
             "anthropicKeyRule Map.empty"]
    by (simp add: g1 g2 h1 h2 a1 a2 k1 k2 del: includes_str.simps)
qed

text \<open>
  The claim as stated, for every call with claude-3-5-haiku in the model name.  The model
  string \<open>anthropic:extended-thinking:claude-3-5-haiku-20241022\<close> resolves to a thinking
  model of provider anthropic; with the user's key found the client is constructed, and
  the bound it receives is four times the thinking budget, 20000, not 8192.  A name that
  contains both claude-3-5-haiku and gpt-5, on provider anthropic, takes the gpt-5 branch,
  which sets max_completion_tokens; the ChatAnthropic client is given \<open>maxTokens\<close> of
  these options, which is undefined, and so is the BedrockChat client on provider bedrock.
\<close>

theorem initializeModel_thinking_haiku_counterexample:
  "includes_str (modelName (getBaseConfigForTask Map.empty (\<lambda>_. ''anthropic:claude-sonnet-4-5-20250929'')
       \<lparr>taskModelName = (\<lambda>_. Some ''anthropic:extended-thinking:claude-3-5-haiku-20241022''),
        taskTemperature = (\<lambda>_. None), modelProvider = None, configMaxTokens = None\<rparr> ROUTER))
     ''claude-3-5-haiku''
   \<and> maxTokens (getBaseConfigForTask Map.empty (\<lambda>_. ''anthropic:claude-sonnet-4-5-20250929'')
       \<lparr>taskModelName = (\<lambda>_. Some ''anthropic:extended-thinking:claude-3-5-haiku-20241022''),
        taskTemperature = (\<lambda>_. None), modelProvider = None, configMaxTokens = None\<rparr> ROUTER)
     = Some 10000
   \<and> initializeModel Map.empty (\<lambda>_. Inr (Some ''sk-ant-user-key'')) (anthropicKeyRule Map.empty)
       (getBaseConfigForTask Map.empty (\<lambda>_. ''anthropic:claude-sonnet-4-5-20250929'')
       \<lparr>taskModelName = (\<lambda>_. Some ''anthropic:extended-thinking:claude-3-5-haiku-20241022''),
        taskTemperature = (\<lambda>_. None), modelProvider = None, configMaxTokens = None\<rparr> ROUTER)
     = Inr (ChatAnthropic ''claude-3-5-haiku-20241022'' (Some ''sk-ant-user-key'') (Some 20000) 0
              (Some (Some 5000)))
   \<and> maxOutputTokens (ChatAnthropic ''claude-3-5-haiku-20241022'' (Some ''sk-ant-user-key'')
        (Some 20000) 0 (Some (Some 5000)))
     \<noteq> Some (min 10000 8192)
   \<and> includes_str ''claude-3-5-haiku-gpt-5'' ''claude-3-5-haiku''
   \<and> initializeModel Map.empty (\<lambda>_. Inr (Some ''sk-ant-user-key'')) (anthropicKeyRule Map.empty)
       \<lparr>provider = ''anthropic'', modelName = ''claude-3-5-haiku-gpt-5'',
        temperature = Some 0, maxTokens = Some 10000, max_completion_tokens = None,
        thinkingModel = Some False, thinkingBudgetTokens = Some 5000\<rparr>
     = Inr (ChatAnthropic ''claude-3-5-haiku-gpt-5'' (Some ''sk-ant-user-key'') None 0 None)
   \<and> maxOutputTokens (ChatAnthropic ''claude-3-5-haiku-gpt-5'' (Some ''sk-ant-user-key'') None 0 None)
     \<noteq> Some (min 10000 8192)
   \<and> initializeModel Map.empty (\<lambda>_. Inr None) (anthropicKeyRule Map.empty)
       \<lparr>provider = ''bedrock'', modelName = ''claude-3-5-haiku-gpt-5'',
        temperature = Some 0, maxTokens = Some 10000, max_completion_tokens = None,
        thinkingModel = Some False, thinkingBudgetTokens = Some 5000\<rparr>
     = Inr (BedrockChat (ModelId ''claude-3-5-haiku-gpt-5'') ''us-east-1'' None (Some 1))
   \<and> maxOutputTokens (BedrockChat (ModelId ''claude-3-5-haiku-gpt-5'') ''us-east-1'' None (Some 1))
     \<noteq> Some (min 10000 8192)"
proof -
  have b: "getBaseConfigForTask Map.empty (\<lambda>_. ''anthropic:claude-sonnet-4-5-20250929'')
       \<lparr>taskModelName = (\<lambda>_. Some ''anthropic:extended-thinking:claude-3-5-haiku-20241022''),
        taskTemperature = (\<lambda>_. None), modelProvider = None, configMaxTokens = None\<rparr> ROUTER
      = \<lparr>provider = ''anthropic'', modelName = ''claude-3-5-haiku-20241022'',
    temperature = Some 0, maxTokens = Some 10000,
    max_completion_tokens = None, thinkingModel = Some True,
    thinkingBudgetTokens = Some 5000\<rparr>"
    by code_simp
  show ?thesis unfolding b
    by (simp add: initializeModel_def clientArguments_def anthropicKeyRule_def Let_def
          truthy_def truthyStr_def startsWith_def bedrockModelMappings_def
          objectPrototypeKeys_def)
qed

subsection \<open>Repair of the message history\<close>





subsection \<open>The loop of the orchestrator, branch by branch\<close>

lemma invokeLoop_skip:
  "\<not> fst (isCircuitClosed cfg r (modelKeyOf c) (checkTime env i)) \<Longrightarrow>
   invokeLoop cfg env task input i (c # rest) r lastErr =
     invokeLoop cfg env task input (Suc i) rest
       (snd (isCircuitClosed cfg r (modelKeyOf c) (checkTime env i))) lastErr"
  by (simp add: Let_def)

lemma invokeLoop_success:
  "fst (isCircuitClosed cfg r (modelKeyOf c) (checkTime env i)) \<Longrightarrow>
   runAttempt env i c input = Inr result \<Longrightarrow>
   invokeLoop cfg env task input i (c # rest) r lastErr =
     (Inr result,
      recordSuccess (snd (isCircuitClosed cfg r (modelKeyOf c) (checkTime env i))) (modelKeyOf c)
        (successTime env i),
      [i])"
  by (simp add: Let_def)

lemma invokeLoop_auth:
  "fst (isCircuitClosed cfg r (modelKeyOf c) (checkTime env i)) \<Longrightarrow>
   runAttempt env i c input = Inl e \<Longrightarrow> isAuthError e \<Longrightarrow>
   invokeLoop cfg env task input i (c # rest) r lastErr =
     (Inl (AuthenticationFailed (authenticationMessage (provider c) e)),
      snd (isCircuitClosed cfg r (modelKeyOf c) (checkTime env i)), [i])"
  by (simp add: Let_def)

lemma invokeLoop_continue:
  "fst (isCircuitClosed cfg r (modelKeyOf c) (checkTime env i)) \<Longrightarrow>
   runAttempt env i c input = Inl e \<Longrightarrow> \<not> isAuthError e \<Longrightarrow> \<not> isConfigError e \<Longrightarrow>
   rest \<noteq> [] \<Longrightarrow>
   invokeLoop cfg env task input i (c # rest) r lastErr =
     (outcome (invokeLoop cfg env task input (Suc i) rest
         (recordFailure cfg (snd (isCircuitClosed cfg r (modelKeyOf c) (checkTime env i)))
            (modelKeyOf c) (failTime env i)) (Some e)),
      storeAfter (invokeLoop cfg env task input (Suc i) rest
         (recordFailure cfg (snd (isCircuitClosed cfg r (modelKeyOf c) (checkTime env i)))
            (modelKeyOf c) (failTime env i)) (Some e)),
      i # attempted (invokeLoop cfg env task input (Suc i) rest
         (recordFailure cfg (snd (isCircuitClosed cfg r (modelKeyOf c) (checkTime env i)))
            (modelKeyOf c) (failTime env i)) (Some e)))"
  by (simp add: Let_def outcome_def storeAfter_def attempted_def)

lemma invokeLoop_rethrow:
  "fst (isCircuitClosed cfg r (modelKeyOf c) (checkTime env i)) \<Longrightarrow>
   runAttempt env i c input = Inl e \<Longrightarrow> \<not> isAuthError e \<Longrightarrow> isConfigError e \<or> rest = [] \<Longrightarrow>
   invokeLoop cfg env task input i (c # rest) r lastErr =
     (Inl (Rethrown e), snd (isCircuitClosed cfg r (modelKeyOf c) (checkTime env i)), [i])"
  by (auto simp: Let_def)


lemma rf_skip:
  "\<not> fst (isCircuitClosed cfg r (modelKeyOf c) (checkTime env i)) \<Longrightarrow>
   invokeLoop_runtime_fallback cfg env task input i (c # rest) r lastErr =
     invokeLoop_runtime_fallback cfg env task input (Suc i) rest
       (snd (isCircuitClosed cfg r (modelKeyOf c) (checkTime env i))) lastErr"
  by (simp add: Let_def)

lemma rf_success:
  "fst (isCircuitClosed cfg r (modelKeyOf c) (checkTime env i)) \<Longrightarrow>
   runAttempt env i c input = Inr result \<Longrightarrow>
   invokeLoop_runtime_fallback cfg env task input i (c # rest) r lastErr =
     (Inr result,
      recordSuccess (snd (isCircuitClosed cfg r (modelKeyOf c) (checkTime env i))) (modelKeyOf c)
        (successTime env i),
      [i])"
  by (simp add: Let_def)

lemma rf_auth:
  "fst (isCircuitClosed cfg r (modelKeyOf c) (checkTime env i)) \<Longrightarrow>
   runAttempt env i c input = Inl e \<Longrightarrow> isAuthError e \<Longrightarrow>
   invokeLoop_runtime_fallback cfg env task input i (c # rest) r lastErr =
     (Inl (AuthenticationFailed (authenticationMessage (provider c) e)),
      snd (isCircuitClosed cfg r (modelKeyOf c) (checkTime env i)), [i])"
  by (simp add: Let_def)

lemma rf_rethrow:
  "fst (isCircuitClosed cfg r (modelKeyOf c) (checkTime env i)) \<Longrightarrow>
   runAttempt env i c input = Inl e \<Longrightarrow> \<not> isAuthError e \<Longrightarrow>
   invokeLoop_runtime_fallback cfg env task input i (c # rest) r lastErr =
     (Inl (Rethrown e), snd (isCircuitClosed cfg r (modelKeyOf c) (checkTime env i)), [i])"
  by (simp add: Let_def)


lemma invokeLoop_first_attempt_auth:
  assumes "j < length cs"
    and "\<forall>p<j. \<not> fst (isCircuitClosed cfg r (modelKeyOf (cs ! p)) (checkTime env (i + p)))"
    and "fst (isCircuitClosed cfg r (modelKeyOf (cs ! j)) (checkTime env (i + j)))"
    and "runAttempt env (i + j) (cs ! j) input = Inl e" and "isAuthError e"
  shows "invokeLoop cfg env task input i cs r lastErr =
           (Inl (AuthenticationFailed (authenticationMessage (provider (cs ! j)) e)),
            snd (isCircuitClosed cfg r (modelKeyOf (cs ! j)) (checkTime env (i + j))), [i + j])"
  using assms
proof (induction cs arbitrary: i j)
  case Nil
  then show ?case by simp
next
  case (Cons c rest)
  show ?case
  proof (cases j)
    case 0
    from Cons.prems(3,4) have a: "fst (isCircuitClosed cfg r (modelKeyOf c) (checkTime env i))"
      and b: "runAttempt env i c input = Inl e" unfolding 0 by simp_all
    show ?thesis unfolding 0 invokeLoop_auth [OF a b Cons.prems(5)] by simp
  next
    case (Suc j')
    from Cons.prems(2) have sk: "\<not> fst (isCircuitClosed cfg r (modelKeyOf c) (checkTime env i))"
      unfolding Suc by (auto dest: spec [of _ 0])
    have same: "snd (isCircuitClosed cfg r (modelKeyOf c) (checkTime env i)) = r"
      by (rule isCircuitClosed_false_store [OF sk])
    have h1: "j' < length rest" using Cons.prems(1) unfolding Suc by simp
    have h2: "\<forall>p<j'. \<not> fst (isCircuitClosed cfg r (modelKeyOf (rest ! p)) (checkTime env (Suc i + p)))"
    proof (intro allI impI)
      fix p assume "p < j'"
      then have "Suc p < j" unfolding Suc by simp
      with Cons.prems(2) have "\<not> fst (isCircuitClosed cfg r (modelKeyOf ((c # rest) ! Suc p))
                                   (checkTime env (i + Suc p)))" by blast
      then show "\<not> fst (isCircuitClosed cfg r (modelKeyOf (rest ! p)) (checkTime env (Suc i + p)))"
        by simp
    qed
    have h3: "fst (isCircuitClosed cfg r (modelKeyOf (rest ! j')) (checkTime env (Suc i + j')))"
      using Cons.prems(3) unfolding Suc by simp
    have h4: "runAttempt env (Suc i + j') (rest ! j') input = Inl e"
      using Cons.prems(4) unfolding Suc by simp
    show ?thesis
      unfolding invokeLoop_skip [OF sk] same Suc
      using Cons.IH [OF h1 h2 h3 h4 Cons.prems(5)] by simp
  qed
qed

lemma rf_first_attempt_auth:
  assumes "j < length cs"
    and "\<forall>p<j. \<not> fst (isCircuitClosed cfg r (modelKeyOf (cs ! p)) (checkTime env (i + p)))"
    and "fst (isCircuitClosed cfg r (modelKeyOf (cs ! j)) (checkTime env (i + j)))"
    and "runAttempt env (i + j) (cs ! j) input = Inl e" and "isAuthError e"
  shows "invokeLoop_runtime_fallback cfg env task input i cs r lastErr =
           (Inl (AuthenticationFailed (authenticationMessage (provider (cs ! j)) e)),
            snd (isCircuitClosed cfg r (modelKeyOf (cs ! j)) (checkTime env (i + j))), [i + j])"
  using assms
proof (induction cs arbitrary: i j)
  case Nil
  then show ?case by simp
next
  case (Cons c rest)
  show ?case
  proof (cases j)
    case 0
    from Cons.prems(3,4) have a: "fst (isCircuitClosed cfg r (modelKeyOf c) (checkTime env i))"
      and b: "runAttempt env i c input = Inl e" unfolding 0 by simp_all
    show ?thesis unfolding 0 rf_auth [OF a b Cons.prems(5)] by simp
  next
    case (Suc j')
    from Cons.prems(2) have sk: "\<not> fst (isCircuitClosed cfg r (modelKeyOf c) (checkTime env i))"
      unfolding Suc by (auto dest: spec [of _ 0])
    have same: "snd (isCircuitClosed cfg r (modelKeyOf c) (checkTime env i)) = r"
      by (rule isCircuitClosed_false_store [OF sk])
    have h1: "j' < length rest" using Cons.prems(1) unfolding Suc by simp
    have h2: "\<forall>p<j'. \<not> fst (isCircuitClosed cfg r (modelKeyOf (rest ! p)) (checkTime env (Suc i + p)))"
    proof (intro allI impI)
      fix p assume "p < j'"
      then have "Suc p < j" unfolding Suc by simp
      with Cons.prems(2) have "\<not> fst (isCircuitClosed cfg r (modelKeyOf ((c # rest) ! Suc p))
                                   (checkTime env (i + Suc p)))" by blast
      then show "\<not> fst (isCircuitClosed cfg r (modelKeyOf (rest ! p)) (checkTime env (Suc i + p)))"
        by simp
    qed
    have h3: "fst (isCircuitClosed cfg r (modelKeyOf (rest ! j')) (checkTime env (Suc i + j')))"
      using Cons.prems(3) unfolding Suc by simp
    have h4: "runAttempt env (Suc i + j') (rest ! j') input = Inl e"
      using Cons.prems(4) unfolding Suc by simp
    show ?thesis
      unfolding rf_skip [OF sk] same Suc
      using Cons.IH [OF h1 h2 h3 h4 Cons.prems(5)] by simp
  qed
qed

lemma invoke_unfold:
  "getPrimaryModel primaryRunnable = Inr primaryModel \<Longrightarrow>
   invoke this env defaults config task primaryRunnable input =
     invokeLoop (managerConfig this) env task (sanitizeHistory input) 0
       (getModelConfigs this (processEnv env) defaults config task primaryModel)
       (redisStore this) None"
  by (simp add: invoke_def Let_def)

lemma invoke_runtime_fallback_unfold:
  "getPrimaryModel primaryRunnable = Inr primaryModel \<Longrightarrow>
   invoke_runtime_fallback this env defaults config task primaryRunnable input =
     invokeLoop_runtime_fallback (managerConfig this) env task input 0
       (getModelConfigs this (processEnv env) defaults config task primaryModel)
       (redisStore this) None"
  by (simp add: invoke_runtime_fallback_def Let_def)

lemma getModelConfigs_list:
  "getModelConfigs this env defaults config task selectedModel =
     [getBaseConfigForTask env defaults config task, getBaseConfigForTask env defaults config task,
      getBaseConfigForTask env defaults config task]"
  by (simp add: getModelConfigs_def Let_def)

subsection \<open>An authentication failure ends the invocation\<close>

text \<open>
  C2.  In both revisions of invoke.  Let the candidate at index \<open>j\<close> of the resolved list
  be the first whose circuit is closed when the loop reaches it (the candidates before it
  are skipped by the breaker, without an attempt), and let its attempt fail with a message
  classified as an authentication error.  Then the invocation makes that attempt and no
  other, whatever the list holds after \<open>j\<close>, records nothing, and throws the
  authentication error naming the provider and the message.  This holds for the loop over
  any list of candidates, and for \<open>invoke\<close> of \<open>utils/runtime-fallback.ts\<close> and
  \<open>invoke\<close> of the revision with sanitizeHistory over the list of the resolver.
\<close>

theorem authentication_error_single_attempt:
  assumes "j < length cs"
    and "\<forall>p<j. \<not> fst (isCircuitClosed cfg r (modelKeyOf (cs ! p)) (checkTime env p))"
    and "fst (isCircuitClosed cfg r (modelKeyOf (cs ! j)) (checkTime env j))"
    and "runAttempt env j (cs ! j) input = Inl e"
    and "isAuthError e"
  shows "invokeLoop_runtime_fallback cfg env task input 0 cs r lastErr =
           (Inl (AuthenticationFailed (authenticationMessage (provider (cs ! j)) e)),
            snd (isCircuitClosed cfg r (modelKeyOf (cs ! j)) (checkTime env j)), [j])
       \<and> invokeLoop cfg env task input 0 cs r lastErr =
           (Inl (AuthenticationFailed (authenticationMessage (provider (cs ! j)) e)),
            snd (isCircuitClosed cfg r (modelKeyOf (cs ! j)) (checkTime env j)), [j])
       \<and> (getPrimaryModel primaryRunnable = Inr primaryModel
            \<and> cs = getModelConfigs this (processEnv env) defaults config task primaryModel
            \<and> cfg = managerConfig this \<and> r = redisStore this \<longrightarrow>
          invoke_runtime_fallback this env defaults config task primaryRunnable input =
            (Inl (AuthenticationFailed (authenticationMessage (provider (cs ! j)) e)),
             snd (isCircuitClosed cfg r (modelKeyOf (cs ! j)) (checkTime env j)), [j])
          \<and> (\<forall>history. sanitizeHistory history = input \<longrightarrow>
               invoke this env defaults config task primaryRunnable history =
                 (Inl (AuthenticationFailed (authenticationMessage (provider (cs ! j)) e)),
                  snd (isCircuitClosed cfg r (modelKeyOf (cs ! j)) (checkTime env j)), [j])))"
proof -
  have a: "invokeLoop_runtime_fallback cfg env task input 0 cs r lastErr' =
           (Inl (AuthenticationFailed (authenticationMessage (provider (cs ! j)) e)),
            snd (isCircuitClosed cfg r (modelKeyOf (cs ! j)) (checkTime env j)), [j])" for lastErr'
    using rf_first_attempt_auth [of j cs cfg r env 0 input e task lastErr'] assms by simp
  have b: "invokeLoop cfg env task input 0 cs r lastErr' =
           (Inl (AuthenticationFailed (authenticationMessage (provider (cs ! j)) e)),
            snd (isCircuitClosed cfg r (modelKeyOf (cs ! j)) (checkTime env j)), [j])" for lastErr'
    using invokeLoop_first_attempt_auth [of j cs cfg r env 0 input e task lastErr'] assms by simp
  have c: "invoke_runtime_fallback this env defaults config task primaryRunnable input =
            (Inl (AuthenticationFailed (authenticationMessage (provider (cs ! j)) e)),
             snd (isCircuitClosed cfg r (modelKeyOf (cs ! j)) (checkTime env j)), [j])"
    if "getPrimaryModel primaryRunnable = Inr primaryModel"
      and "cs = getModelConfigs this (processEnv env) defaults config task primaryModel"
      and "cfg = managerConfig this" and "r = redisStore this"
    using a [of None] unfolding invoke_runtime_fallback_unfold [OF that(1)] that(2,3,4) .
  have d: "invoke this env defaults config task primaryRunnable history =
                 (Inl (AuthenticationFailed (authenticationMessage (provider (cs ! j)) e)),
                  snd (isCircuitClosed cfg r (modelKeyOf (cs ! j)) (checkTime env j)), [j])"
    if "getPrimaryModel primaryRunnable = Inr primaryModel"
      and "cs = getModelConfigs this (processEnv env) defaults config task primaryModel"
      and "cfg = managerConfig this" and "r = redisStore this"
      and "sanitizeHistory history = input" for history
    using b [of None] unfolding invoke_unfold [OF that(1)] that(2,3,4,5) .
  from a [of lastErr] b [of lastErr] c d show ?thesis by blast
qed

text \<open>
  The default configuration with the user's API key found and a provider that answers
  every call with 401: both revisions make one attempt and throw the authentication error.
  And a list whose first candidate has an open circuit: it is skipped, the attempt is made
  for the second candidate, and it is the only one.  And the default configuration with no
  API key, for the user or in the environment: the ChatAnthropic constructor throws, the
  message is classified as an authentication error, and the invocation ends after that
  attempt although the provider would have answered.
\<close>

theorem authentication_error_single_attempt_witness:
  "outcome (invoke_runtime_fallback (defaultManager (Some Map.empty))
       (scenarioEnv (\<lambda>i. Inl ''401 Unauthorized''))
       tableDefaults noOverrides PLANNER (ChatModel plainModel) (Messages []))
     = Inl (AuthenticationFailed
         ''Authentication failed for anthropic. Please verify your API key is correct in Settings. Error: 401 Unauthorized'')
   \<and> attempted (invoke_runtime_fallback (defaultManager (Some Map.empty))
       (scenarioEnv (\<lambda>i. Inl ''401 Unauthorized''))
       tableDefaults noOverrides PLANNER (ChatModel plainModel) (Messages [])) = [0]
   \<and> outcome (invoke (defaultManager (Some Map.empty)) (scenarioEnv (\<lambda>i. Inl ''401 Unauthorized''))
       tableDefaults noOverrides PLANNER (ChatModel plainModel) (Messages []))
     = Inl (AuthenticationFailed
         ''Authentication failed for anthropic. Please verify your API key is correct in Settings. Error: 401 Unauthorized'')
   \<and> attempted (invoke (defaultManager (Some Map.empty)) (scenarioEnv (\<lambda>i. Inl ''401 Unauthorized''))
       tableDefaults noOverrides PLANNER (ChatModel plainModel) (Messages [])) = [0]
   \<and> attempted (invokeLoop_runtime_fallback DEFAULT_MODEL_MANAGER_CONFIG
       (scenarioEnv (\<lambda>i. Inl ''401 Unauthorized'')) PLANNER (Messages []) 0
       [\<lparr>provider = ''openai'', modelName = ''gpt-5-codex'', temperature = Some 0,
         maxTokens = Some 10000, max_completion_tokens = None, thinkingModel = Some False,
         thinkingBudgetTokens = Some 5000\<rparr>,
        \<lparr>provider = ''anthropic'', modelName = ''claude-sonnet-4-5-20250929'', temperature = Some 0,
         maxTokens = Some 10000, max_completion_tokens = None, thinkingModel = Some False,
         thinkingBudgetTokens = Some 5000\<rparr>]
       (Some [''circuit_breaker:openai:gpt-5-codex'' \<mapsto>
          (\<lparr>state = OPEN, failureCount = 2, lastFailureTime = 900, openedAt = Some 900\<rparr>, 86400900)])
       None) = [1]
   \<and> outcome (invoke_runtime_fallback (defaultManager None)
       ((scenarioEnv (\<lambda>i. Inr ''done''))\<lparr>userApiKey := (\<lambda>_. Inr None)\<rparr>)
       tableDefaults noOverrides PLANNER (ChatModel plainModel) (Messages []))
     = Inl (AuthenticationFailed
         ''Authentication failed for anthropic. Please verify your API key is correct in Settings. Error: Anthropic API key not found'')
   \<and> attempted (invoke_runtime_fallback (defaultManager None)
       ((scenarioEnv (\<lambda>i. Inr ''done''))\<lparr>userApiKey := (\<lambda>_. Inr None)\<rparr>)
       tableDefaults noOverrides PLANNER (ChatModel plainModel) (Messages [])) = [0]"
proof -
  let ?env = "scenarioEnv (\<lambda>i. Inl ''401 Unauthorized'')"
  let ?mgr = "defaultManager (Some Map.empty)"
  let ?cs = "getModelConfigs ?mgr (processEnv ?env) tableDefaults noOverrides PLANNER plainModel"
  let ?cs2 = "[\<lparr>provider = ''openai'', modelName = ''gpt-5-codex'', temperature = Some (0::real),
         maxTokens = Some (10000::int), max_completion_tokens = (None::int option),
         thinkingModel = Some False, thinkingBudgetTokens = Some (5000::int)\<rparr>,
        \<lparr>provider = ''anthropic'', modelName = ''claude-sonnet-4-5-20250929'', temperature = Some 0,
         maxTokens = Some 10000, max_completion_tokens = None, thinkingModel = Some False,
         thinkingBudgetTokens = Some 5000\<rparr>]"
  let ?r2 = "Some [''circuit_breaker:openai:gpt-5-codex'' \<mapsto>
          (\<lparr>state = OPEN, failureCount = 2, lastFailureTime = 900, openedAt = Some 900\<rparr>,
           86400900::int)]"
  have same: "sanitizeHistory (Messages []) = Messages []" by code_simp
  have p: "getPrimaryModel (ChatModel plainModel) = Inr plainModel" by simp
  have h0: "0 < length ?cs" by (simp add: getModelConfigs_list)
  have h1: "\<forall>p<0. \<not> fst (isCircuitClosed (managerConfig ?mgr) (redisStore ?mgr)
                (modelKeyOf (?cs ! p)) (checkTime ?env p))" by simp
  have h2: "fst (isCircuitClosed (managerConfig ?mgr) (redisStore ?mgr)
                (modelKeyOf (?cs ! 0)) (checkTime ?env 0))" by code_simp
  have h3: "runAttempt ?env 0 (?cs ! 0) (Messages []) = Inl ''401 Unauthorized''" by code_simp
  have h4: "isAuthError ''401 Unauthorized''" by code_simp
  have msg: "authenticationMessage (provider (?cs ! 0)) ''401 Unauthorized'' =
      ''Authentication failed for anthropic. Please verify your API key is correct in Settings. Error: 401 Unauthorized''"
    by code_simp
  note A = authentication_error_single_attempt [OF h0 h1 h2 h3 h4,
      where primaryRunnable = "ChatModel plainModel" and primaryModel = plainModel
        and this = ?mgr and defaults = tableDefaults and config = noOverrides and task = PLANNER]
  from A p same
  have first: "invoke_runtime_fallback ?mgr ?env tableDefaults noOverrides PLANNER
          (ChatModel plainModel) (Messages []) =
       (Inl (AuthenticationFailed (authenticationMessage (provider (?cs ! 0)) ''401 Unauthorized'')),
        snd (isCircuitClosed (managerConfig ?mgr) (redisStore ?mgr)
                (modelKeyOf (?cs ! 0)) (checkTime ?env 0)), [0])"
    and second: "invoke ?mgr ?env tableDefaults noOverrides PLANNER
          (ChatModel plainModel) (Messages []) =
       (Inl (AuthenticationFailed (authenticationMessage (provider (?cs ! 0)) ''401 Unauthorized'')),
        snd (isCircuitClosed (managerConfig ?mgr) (redisStore ?mgr)
                (modelKeyOf (?cs ! 0)) (checkTime ?env 0)), [0])"
    by blast+
  have g0: "1 < length ?cs2" by simp
  have g1': "\<not> fst (isCircuitClosed DEFAULT_MODEL_MANAGER_CONFIG ?r2
                (modelKeyOf (?cs2 ! 0)) (checkTime ?env 0))" by code_simp
  have g1: "\<forall>p<1. \<not> fst (isCircuitClosed DEFAULT_MODEL_MANAGER_CONFIG ?r2
                (modelKeyOf (?cs2 ! p)) (checkTime ?env p))"
    using g1' by (simp del: isCircuitClosed_def)
  have g2: "fst (isCircuitClosed DEFAULT_MODEL_MANAGER_CONFIG ?r2
                (modelKeyOf (?cs2 ! 1)) (checkTime ?env 1))" by code_simp
  have g3: "runAttempt ?env 1 (?cs2 ! 1) (Messages []) = Inl ''401 Unauthorized''" by code_simp
  from authentication_error_single_attempt [OF g0 g1 g2 g3 h4, where task = PLANNER and lastErr = None]
  have third: "attempted (invokeLoop_runtime_fallback DEFAULT_MODEL_MANAGER_CONFIG ?env PLANNER
       (Messages []) 0 ?cs2 ?r2 None) = [1]"
    by (simp add: attempted_def)
  have fourth: "outcome (invoke_runtime_fallback (defaultManager None)
       ((scenarioEnv (\<lambda>i. Inr ''done''))\<lparr>userApiKey := (\<lambda>_. Inr None)\<rparr>)
       tableDefaults noOverrides PLANNER (ChatModel plainModel) (Messages []))
     = Inl (AuthenticationFailed
         ''Authentication failed for anthropic. Please verify your API key is correct in Settings. Error: Anthropic API key not found'')
   \<and> attempted (invoke_runtime_fallback (defaultManager None)
       ((scenarioEnv (\<lambda>i. Inr ''done''))\<lparr>userApiKey := (\<lambda>_. Inr None)\<rparr>)
       tableDefaults noOverrides PLANNER (ChatModel plainModel) (Messages [])) = [0]"
    by code_simp
  show ?thesis
    unfolding first second msg using third fourth by (simp add: outcome_def attempted_def)
qed

subsection \<open>Transient failures\<close>

text \<open>
  C1 (amended).  Let a breaker-available candidate at index \<open>i\<close> fail with a message that
  is neither an authentication nor a configuration error.

  In \<open>invoke\<close> of \<open>utils/runtime-fallback.ts\<close> the error caught is thrown again at once:
  nothing is recorded, no further candidate is tried, and this attempt is the last.

  In the revision of \<open>invoke\<close> with sanitizeHistory: if the candidate is not the last
  entry of the list, a failure is recorded for its model key and the loop goes on with the
  next entry, in the store with that failure (so for the primary candidate of every
  invocation, the list of the resolver having three entries).  If it is the last entry,
  nothing is recorded and the error caught is thrown again as it is.  When the next entry
  is breaker-available, a second attempt is made: on success its result is the outcome,
  and on an authentication error, a configuration error or any error at the last entry its
  error is the outcome, after exactly two attempts.  The exhaustion error, with the last
  error message, is the outcome when the entries that remain are skipped by the breaker:
  after the first failure when the second entry of two is skipped, after the second when
  the third of three is.
\<close>

theorem transient_failure_recorded_then_next:
  fixes c2 :: ModelLoadConfig
  assumes avail: "fst (isCircuitClosed cfg r (modelKeyOf c1) (checkTime env i))"
    and failed: "runAttempt env i c1 input = Inl e1"
    and transient: "\<not> isAuthError e1" "\<not> isConfigError e1"
  defines "r1 \<equiv> recordFailure cfg (snd (isCircuitClosed cfg r (modelKeyOf c1) (checkTime env i)))
                    (modelKeyOf c1) (failTime env i)"
  defines "r2 \<equiv> recordFailure cfg (snd (isCircuitClosed cfg r1 (modelKeyOf c2) (checkTime env (Suc i))))
                    (modelKeyOf c2) (failTime env (Suc i))"
  shows "(rest \<noteq> [] \<longrightarrow>
            invokeLoop cfg env task input i (c1 # rest) r lastErr =
              (outcome (invokeLoop cfg env task input (Suc i) rest r1 (Some e1)),
               storeAfter (invokeLoop cfg env task input (Suc i) rest r1 (Some e1)),
               i # attempted (invokeLoop cfg env task input (Suc i) rest r1 (Some e1))))
       \<and> invokeLoop cfg env task input i [c1] r lastErr =
            (Inl (Rethrown e1), snd (isCircuitClosed cfg r (modelKeyOf c1) (checkTime env i)), [i])
       \<and> (fst (isCircuitClosed cfg r1 (modelKeyOf c2) (checkTime env (Suc i))) \<longrightarrow>
            (runAttempt env (Suc i) c2 input = Inr result \<longrightarrow>
               outcome (invokeLoop cfg env task input i (c1 # c2 # rest2) r lastErr) = Inr result
             \<and> attempted (invokeLoop cfg env task input i (c1 # c2 # rest2) r lastErr) = [i, Suc i])
          \<and> (runAttempt env (Suc i) c2 input = Inl e2 \<and> isAuthError e2 \<longrightarrow>
               outcome (invokeLoop cfg env task input i (c1 # c2 # rest2) r lastErr)
                 = Inl (AuthenticationFailed (authenticationMessage (provider c2) e2))
             \<and> attempted (invokeLoop cfg env task input i (c1 # c2 # rest2) r lastErr) = [i, Suc i])
          \<and> (runAttempt env (Suc i) c2 input = Inl e2 \<and> \<not> isAuthError e2
                \<and> (isConfigError e2 \<or> rest2 = []) \<longrightarrow>
               outcome (invokeLoop cfg env task input i (c1 # c2 # rest2) r lastErr)
                 = Inl (Rethrown e2)
             \<and> attempted (invokeLoop cfg env task input i (c1 # c2 # rest2) r lastErr) = [i, Suc i]))
       \<and> (\<not> fst (isCircuitClosed cfg r1 (modelKeyOf c2) (checkTime env (Suc i))) \<longrightarrow>
            invokeLoop cfg env task input i [c1, c2] r lastErr =
              (Inl (AllExhausted (exhaustedMessage task (Some e1))),
               snd (isCircuitClosed cfg r1 (modelKeyOf c2) (checkTime env (Suc i))), [i]))
       \<and> (fst (isCircuitClosed cfg r1 (modelKeyOf c2) (checkTime env (Suc i)))
            \<and> runAttempt env (Suc i) c2 input = Inl e2
            \<and> \<not> isAuthError e2 \<and> \<not> isConfigError e2
            \<and> \<not> fst (isCircuitClosed cfg r2 (modelKeyOf c3) (checkTime env (Suc (Suc i)))) \<longrightarrow>
            invokeLoop cfg env task input i [c1, c2, c3] r lastErr =
              (Inl (AllExhausted (exhaustedMessage task (Some e2))),
               snd (isCircuitClosed cfg r2 (modelKeyOf c3) (checkTime env (Suc (Suc i)))),
               [i, Suc i]))
       \<and> invokeLoop_runtime_fallback cfg env task input i (c1 # rest) r lastErr =
            (Inl (Rethrown e1), snd (isCircuitClosed cfg r (modelKeyOf c1) (checkTime env i)), [i])
       \<and> (i = 0 \<and> getPrimaryModel primaryRunnable = Inr primaryModel
            \<and> getModelConfigs this (processEnv env) defaults config task primaryModel = c1 # rest
            \<and> cfg = managerConfig this \<and> r = redisStore this \<longrightarrow>
          invoke_runtime_fallback this env defaults config task primaryRunnable input =
            (Inl (Rethrown e1), snd (isCircuitClosed cfg r (modelKeyOf c1) (checkTime env 0)), [0])
          \<and> (\<forall>history. sanitizeHistory history = input \<longrightarrow>
               invoke this env defaults config task primaryRunnable history =
                 (outcome (invokeLoop cfg env task input 1 rest r1 (Some e1)),
                  storeAfter (invokeLoop cfg env task input 1 rest r1 (Some e1)),
                  0 # attempted (invokeLoop cfg env task input 1 rest r1 (Some e1)))))"
proof -
  have step: "rest' \<noteq> [] \<Longrightarrow>
            invokeLoop cfg env task input i (c1 # rest') r lastErr =
              (outcome (invokeLoop cfg env task input (Suc i) rest' r1 (Some e1)),
               storeAfter (invokeLoop cfg env task input (Suc i) rest' r1 (Some e1)),
               i # attempted (invokeLoop cfg env task input (Suc i) rest' r1 (Some e1)))" for rest'
    unfolding r1_def by (rule invokeLoop_continue [OF avail failed transient])
  have last_entry: "invokeLoop cfg env task input i [c1] r lastErr =
            (Inl (Rethrown e1), snd (isCircuitClosed cfg r (modelKeyOf c1) (checkTime env i)), [i])"
    by (rule invokeLoop_rethrow [OF avail failed transient(1)]) simp
  have two: "invokeLoop cfg env task input i (c1 # c2 # rest2) r lastErr =
              (outcome (invokeLoop cfg env task input (Suc i) (c2 # rest2) r1 (Some e1)),
               storeAfter (invokeLoop cfg env task input (Suc i) (c2 # rest2) r1 (Some e1)),
               i # attempted (invokeLoop cfg env task input (Suc i) (c2 # rest2) r1 (Some e1)))"
    by (rule step) simp
  have second_ok: "outcome (invokeLoop cfg env task input i (c1 # c2 # rest2) r lastErr) = Inr result
             \<and> attempted (invokeLoop cfg env task input i (c1 # c2 # rest2) r lastErr) = [i, Suc i]"
    if a: "fst (isCircuitClosed cfg r1 (modelKeyOf c2) (checkTime env (Suc i)))"
      and b: "runAttempt env (Suc i) c2 input = Inr result"
    unfolding two invokeLoop_success [OF a b] by (simp add: outcome_def attempted_def)
  have second_auth: "outcome (invokeLoop cfg env task input i (c1 # c2 # rest2) r lastErr)
                 = Inl (AuthenticationFailed (authenticationMessage (provider c2) e2))
             \<and> attempted (invokeLoop cfg env task input i (c1 # c2 # rest2) r lastErr) = [i, Suc i]"
    if a: "fst (isCircuitClosed cfg r1 (modelKeyOf c2) (checkTime env (Suc i)))"
      and b: "runAttempt env (Suc i) c2 input = Inl e2" and c: "isAuthError e2"
    unfolding two invokeLoop_auth [OF a b c] by (simp add: outcome_def attempted_def)
  have second_rethrown: "outcome (invokeLoop cfg env task input i (c1 # c2 # rest2) r lastErr)
                 = Inl (Rethrown e2)
             \<and> attempted (invokeLoop cfg env task input i (c1 # c2 # rest2) r lastErr) = [i, Suc i]"
    if a: "fst (isCircuitClosed cfg r1 (modelKeyOf c2) (checkTime env (Suc i)))"
      and b: "runAttempt env (Suc i) c2 input = Inl e2" and c: "\<not> isAuthError e2"
      and d: "isConfigError e2 \<or> rest2 = []"
    unfolding two invokeLoop_rethrow [OF a b c d] by (simp add: outcome_def attempted_def)
  have skipped: "invokeLoop cfg env task input i [c1, c2] r lastErr =
              (Inl (AllExhausted (exhaustedMessage task (Some e1))),
               snd (isCircuitClosed cfg r1 (modelKeyOf c2) (checkTime env (Suc i))), [i])"
    if a: "\<not> fst (isCircuitClosed cfg r1 (modelKeyOf c2) (checkTime env (Suc i)))"
  proof -
    have s: "invokeLoop cfg env task input i [c1, c2] r lastErr =
              (outcome (invokeLoop cfg env task input (Suc i) [c2] r1 (Some e1)),
               storeAfter (invokeLoop cfg env task input (Suc i) [c2] r1 (Some e1)),
               i # attempted (invokeLoop cfg env task input (Suc i) [c2] r1 (Some e1)))"
      by (rule step) simp
    have n: "invokeLoop cfg env task input (Suc i) [c2] r1 (Some e1) =
               invokeLoop cfg env task input (Suc (Suc i)) []
                 (snd (isCircuitClosed cfg r1 (modelKeyOf c2) (checkTime env (Suc i)))) (Some e1)"
      by (rule invokeLoop_skip [OF a])
    show ?thesis unfolding s n by (simp add: outcome_def storeAfter_def attempted_def)
  qed
  have third_skipped: "invokeLoop cfg env task input i [c1, c2, c3] r lastErr =
              (Inl (AllExhausted (exhaustedMessage task (Some e2))),
               snd (isCircuitClosed cfg r2 (modelKeyOf c3) (checkTime env (Suc (Suc i)))),
               [i, Suc i])"
    if a: "fst (isCircuitClosed cfg r1 (modelKeyOf c2) (checkTime env (Suc i)))"
      and b: "runAttempt env (Suc i) c2 input = Inl e2"
      and c: "\<not> isAuthError e2" and d: "\<not> isConfigError e2"
      and e: "\<not> fst (isCircuitClosed cfg r2 (modelKeyOf c3) (checkTime env (Suc (Suc i))))"
  proof -
    have s1: "invokeLoop cfg env task input i [c1, c2, c3] r lastErr =
              (outcome (invokeLoop cfg env task input (Suc i) [c2, c3] r1 (Some e1)),
               storeAfter (invokeLoop cfg env task input (Suc i) [c2, c3] r1 (Some e1)),
               i # attempted (invokeLoop cfg env task input (Suc i) [c2, c3] r1 (Some e1)))"
      by (rule step) simp
    have s2: "invokeLoop cfg env task input (Suc i) [c2, c3] r1 (Some e1) =
              (outcome (invokeLoop cfg env task input (Suc (Suc i)) [c3] r2 (Some e2)),
               storeAfter (invokeLoop cfg env task input (Suc (Suc i)) [c3] r2 (Some e2)),
               Suc i # attempted (invokeLoop cfg env task input (Suc (Suc i)) [c3] r2 (Some e2)))"
      unfolding r2_def by (rule invokeLoop_continue [OF a b c d]) simp
    have s3: "invokeLoop cfg env task input (Suc (Suc i)) [c3] r2 (Some e2) =
               invokeLoop cfg env task input (Suc (Suc (Suc i))) []
                 (snd (isCircuitClosed cfg r2 (modelKeyOf c3) (checkTime env (Suc (Suc i))))) (Some e2)"
      by (rule invokeLoop_skip [OF e])
    show ?thesis unfolding s1 s2 s3 by (simp add: outcome_def storeAfter_def attempted_def)
  qed
  have rf: "invokeLoop_runtime_fallback cfg env task input i (c1 # rest') r lastErr' =
            (Inl (Rethrown e1), snd (isCircuitClosed cfg r (modelKeyOf c1) (checkTime env i)), [i])"
    for rest' lastErr'
    by (rule rf_rethrow [OF avail failed transient(1)])
  have invoked: "invoke_runtime_fallback this env defaults config task primaryRunnable input =
            (Inl (Rethrown e1), snd (isCircuitClosed cfg r (modelKeyOf c1) (checkTime env 0)), [0])
          \<and> (\<forall>history. sanitizeHistory history = input \<longrightarrow>
               invoke this env defaults config task primaryRunnable history =
                 (outcome (invokeLoop cfg env task input 1 rest r1 (Some e1)),
                  storeAfter (invokeLoop cfg env task input 1 rest r1 (Some e1)),
                  0 # attempted (invokeLoop cfg env task input 1 rest r1 (Some e1))))"
    if z: "i = 0" and p: "getPrimaryModel primaryRunnable = Inr primaryModel"
      and l: "getModelConfigs this (processEnv env) defaults config task primaryModel = c1 # rest"
      and m: "cfg = managerConfig this" "r = redisStore this"
  proof -
    have ne: "rest \<noteq> []" using l unfolding getModelConfigs_list by auto
    have s: "invokeLoop cfg env task input 0 (c1 # rest) r None =
              (outcome (invokeLoop cfg env task input 1 rest r1 (Some e1)),
               storeAfter (invokeLoop cfg env task input 1 rest r1 (Some e1)),
               0 # attempted (invokeLoop cfg env task input 1 rest r1 (Some e1)))"
      using invokeLoop_continue [OF avail failed transient ne, of task None]
      unfolding r1_def z by simp
    have f: "invokeLoop_runtime_fallback cfg env task input 0 (c1 # rest) r None =
            (Inl (Rethrown e1), snd (isCircuitClosed cfg r (modelKeyOf c1) (checkTime env 0)), [0])"
      using rf [of rest None] unfolding z .
    show ?thesis
      unfolding invoke_runtime_fallback_unfold [OF p] invoke_unfold [OF p] l
      using s f unfolding m by simp
  qed
  from step [of rest] last_entry second_ok second_auth second_rethrown skipped third_skipped
       rf [of rest lastErr] invoked
  show ?thesis by blast
qed

text \<open>
  The default configuration: three identical candidates, threshold 2, a fresh available
  store, the user's API key found, every provider call timing out.  In the revision with
  sanitizeHistory two attempts are made, the second failure opens the circuit, the third
  candidate is skipped and the exhaustion error carries the message.  In the revision of
  \<open>utils/runtime-fallback.ts\<close> the first timeout is thrown again after one attempt.
\<close>

theorem transient_failure_recorded_then_next_witness:
  "\<not> isAuthError ''Request timed out'' \<and> \<not> isConfigError ''Request timed out''
   \<and> outcome (invoke (defaultManager (Some Map.empty)) (scenarioEnv (\<lambda>i. Inl ''Request timed out''))
        tableDefaults noOverrides PLANNER (ChatModel plainModel) (Messages []))
      = Inl (AllExhausted
          ''All fallback models exhausted for task planner. Last error: Request timed out'')
   \<and> attempted (invoke (defaultManager (Some Map.empty)) (scenarioEnv (\<lambda>i. Inl ''Request timed out''))
        tableDefaults noOverrides PLANNER (ChatModel plainModel) (Messages [])) = [0, 1]
   \<and> outcome (invoke_runtime_fallback (defaultManager (Some Map.empty))
        (scenarioEnv (\<lambda>i. Inl ''Request timed out''))
        tableDefaults noOverrides PLANNER (ChatModel plainModel) (Messages []))
      = Inl (Rethrown ''Request timed out'')
   \<and> attempted (invoke_runtime_fallback (defaultManager (Some Map.empty))
        (scenarioEnv (\<lambda>i. Inl ''Request timed out''))
        tableDefaults noOverrides PLANNER (ChatModel plainModel) (Messages [])) = [0]"
proof -
  let ?env = "scenarioEnv (\<lambda>i. Inl ''Request timed out'')"
  let ?mgr = "defaultManager (Some Map.empty)"
  let ?cfg = "managerConfig ?mgr"
  let ?r = "redisStore ?mgr"
  let ?b = "getBaseConfigForTask (processEnv ?env) tableDefaults noOverrides PLANNER"
  let ?input = "sanitizeHistory (Messages [])"
  let ?r1 = "recordFailure ?cfg (snd (isCircuitClosed ?cfg ?r (modelKeyOf ?b) (checkTime ?env 0)))
               (modelKeyOf ?b) (failTime ?env 0)"
  let ?r2 = "recordFailure ?cfg (snd (isCircuitClosed ?cfg ?r1 (modelKeyOf ?b) (checkTime ?env (Suc 0))))
               (modelKeyOf ?b) (failTime ?env (Suc 0))"
  have t: "\<not> isAuthError ''Request timed out''" "\<not> isConfigError ''Request timed out''"
    by code_simp+
  have a1: "fst (isCircuitClosed ?cfg ?r (modelKeyOf ?b) (checkTime ?env 0))" by code_simp
  have f1: "runAttempt ?env 0 ?b ?input = Inl ''Request timed out''" by code_simp
  have a2: "fst (isCircuitClosed ?cfg ?r1 (modelKeyOf ?b) (checkTime ?env (Suc 0)))" by code_simp
  have f2: "runAttempt ?env (Suc 0) ?b ?input = Inl ''Request timed out''" by code_simp
  have a3: "\<not> fst (isCircuitClosed ?cfg ?r2 (modelKeyOf ?b) (checkTime ?env (Suc (Suc 0))))"
    by code_simp
  have m: "exhaustedMessage PLANNER (Some ''Request timed out'') =
      ''All fallback models exhausted for task planner. Last error: Request timed out''"
    by code_simp
  have same: "?input = Messages []" by code_simp
  have p: "getPrimaryModel (ChatModel plainModel) = Inr plainModel" by simp
  have l: "getModelConfigs ?mgr (processEnv ?env) tableDefaults noOverrides PLANNER plainModel
             = ?b # [?b, ?b]"
    by (rule getModelConfigs_list)
  note T = transient_failure_recorded_then_next [OF a1 f1 t,
      of "[?b, ?b]" PLANNER None ?b "''ok''" "[?b]" "''Request timed out''" ?b
         "ChatModel plainModel" plainModel ?mgr tableDefaults noOverrides]
  from T a2 f2 t a3
  have loop: "invokeLoop ?cfg ?env PLANNER ?input 0 [?b, ?b, ?b] ?r None =
      (Inl (AllExhausted (exhaustedMessage PLANNER (Some ''Request timed out''))),
       snd (isCircuitClosed ?cfg ?r2 (modelKeyOf ?b) (checkTime ?env (Suc (Suc 0)))), [0, Suc 0])"
    by blast
  from T p l
  have rf: "invoke_runtime_fallback ?mgr ?env tableDefaults noOverrides PLANNER
              (ChatModel plainModel) ?input =
      (Inl (Rethrown ''Request timed out''),
       snd (isCircuitClosed ?cfg ?r (modelKeyOf ?b) (checkTime ?env 0)), [0])"
    by blast
  have inv: "invoke ?mgr ?env tableDefaults noOverrides PLANNER (ChatModel plainModel) (Messages [])
      = invokeLoop ?cfg ?env PLANNER ?input 0 [?b, ?b, ?b] ?r None"
    unfolding invoke_unfold [OF p] getModelConfigs_list ..
  show ?thesis
    unfolding inv loop m using t rf unfolding same
    by (simp add: outcome_def attempted_def)
qed

text \<open>
  The claim as stated, for every invocation.  In \<open>invoke\<close> of
  \<open>utils/runtime-fallback.ts\<close>, with the default settings, an available store and the
  user's API key found, the first timeout is thrown again: one attempt, no failure
  recorded, the second candidate not tried.  In the revision with sanitizeHistory, with
  Redis unavailable and the default settings three attempts are made and the third error
  is thrown again as it is, not an exhaustion error; so also with an available store and
  threshold 3, where the circuit counts two failures after three failed attempts: the
  failure of the last entry is not recorded.
\<close>

theorem transient_failure_last_entry_counterexample:
  "\<not> isAuthError ''Request timed out'' \<and> \<not> isConfigError ''Request timed out''
   \<and> outcome (invoke_runtime_fallback (defaultManager (Some Map.empty))
        (scenarioEnv (\<lambda>i. Inl ''Request timed out''))
        tableDefaults noOverrides PLANNER (ChatModel plainModel) (Messages []))
      = Inl (Rethrown ''Request timed out'')
   \<and> attempted (invoke_runtime_fallback (defaultManager (Some Map.empty))
        (scenarioEnv (\<lambda>i. Inl ''Request timed out''))
        tableDefaults noOverrides PLANNER (ChatModel plainModel) (Messages [])) = [0]
   \<and> failureCount (circuitOf (storeAfter (invoke_runtime_fallback (defaultManager (Some Map.empty))
        (scenarioEnv (\<lambda>i. Inl ''Request timed out''))
        tableDefaults noOverrides PLANNER (ChatModel plainModel) (Messages [])))
        ''anthropic:claude-sonnet-4-5-20250929'' 2000) = 0
   \<and> outcome (invoke (defaultManager None) (scenarioEnv (\<lambda>i. Inl ''Request timed out''))
        tableDefaults noOverrides PLANNER (ChatModel plainModel) (Messages []))
      = Inl (Rethrown ''Request timed out'')
   \<and> attempted (invoke (defaultManager None) (scenarioEnv (\<lambda>i. Inl ''Request timed out''))
        tableDefaults noOverrides PLANNER (ChatModel plainModel) (Messages [])) = [0, 1, 2]
   \<and> outcome (invoke \<lparr>managerConfig = DEFAULT_MODEL_MANAGER_CONFIG\<lparr>circuitBreakerFailureThreshold := 3\<rparr>,
                      redisStore = Some Map.empty\<rparr>
        (scenarioEnv (\<lambda>i. Inl ''Request timed out''))
        tableDefaults noOverrides PLANNER (ChatModel plainModel) (Messages []))
      = Inl (Rethrown ''Request timed out'')
   \<and> attempted (invoke \<lparr>managerConfig = DEFAULT_MODEL_MANAGER_CONFIG\<lparr>circuitBreakerFailureThreshold := 3\<rparr>,
                      redisStore = Some Map.empty\<rparr>
        (scenarioEnv (\<lambda>i. Inl ''Request timed out''))
        tableDefaults noOverrides PLANNER (ChatModel plainModel) (Messages [])) = [0, 1, 2]
   \<and> failureCount (circuitOf (storeAfter
        (invoke \<lparr>managerConfig = DEFAULT_MODEL_MANAGER_CONFIG\<lparr>circuitBreakerFailureThreshold := 3\<rparr>,
                      redisStore = Some Map.empty\<rparr>
        (scenarioEnv (\<lambda>i. Inl ''Request timed out''))
        tableDefaults noOverrides PLANNER (ChatModel plainModel) (Messages [])))
        ''anthropic:claude-sonnet-4-5-20250929'' 2000) = 2"
  by code_simp

subsection \<open>Compaction of the history\<close>

lemma span_nonempty_bounds:
  assumes "eligibleSpan convLog \<noteq> []"
  shows "spanStart convLog < spanStop convLog" and "spanStop convLog + KEEP_RECENT = length (entries convLog)"
proof -
  from assms show a: "spanStart convLog < spanStop convLog"
    by (auto simp: eligibleSpan_def)
  then have "0 < spanStop convLog" by simp
  then show "spanStop convLog + KEEP_RECENT = length (entries convLog)"
    by (simp add: spanStop_def)
qed

text \<open>
  C7.  Below the threshold monitorAndCompact returns the log as it is and makes no model
  call.  At or above the threshold with a non-empty eligible span (the entries after the
  marker and before the last 20) the span is replaced by two entries, the notice and the
  summary, with one model call; with an empty span the log is returned as it is.  In every
  case the last 20 entries of the result are the last 20 entries of the log.  For 120
  entries, 80001 tokens, no marker and the default threshold the span is the first 100
  entries, the result has 22 entries and its entries from the third on are entries
  101 to 120 of the log.
\<close>

theorem monitorAndCompact_contract:
  "(tokenCount convLog < threshold \<longrightarrow> monitorAndCompact threshold summarize convLog = (convLog, 0))
 \<and> (threshold \<le> tokenCount convLog \<and> eligibleSpan convLog = [] \<longrightarrow>
      monitorAndCompact threshold summarize convLog = (convLog, 0))
 \<and> (threshold \<le> tokenCount convLog \<and> eligibleSpan convLog \<noteq> [] \<longrightarrow>
      entries (fst (monitorAndCompact threshold summarize convLog)) =
        take (spanStart convLog) (entries convLog)
        @ [condensedNotice, summaryEntry (summarize (eligibleSpan convLog))]
        @ drop (length (entries convLog) - 20) (entries convLog)
    \<and> snd (monitorAndCompact threshold summarize convLog) = 1
    \<and> length (entries (fst (monitorAndCompact threshold summarize convLog))) + length (eligibleSpan convLog)
        = length (entries convLog) + 2)
 \<and> drop (length (entries (fst (monitorAndCompact threshold summarize convLog))) - 20)
        (entries (fst (monitorAndCompact threshold summarize convLog)))
      = drop (length (entries convLog) - 20) (entries convLog)
 \<and> (length (entries convLog) = 120 \<and> tokenCount convLog = 80001 \<and> lastCompaction convLog = None \<longrightarrow>
      eligibleSpan convLog = take 100 (entries convLog)
    \<and> length (entries (fst (monitorAndCompact MAX_INTERNAL_TOKENS summarize convLog))) = 22
    \<and> drop 2 (entries (fst (monitorAndCompact MAX_INTERNAL_TOKENS summarize convLog)))
        = drop 100 (entries convLog)
    \<and> snd (monitorAndCompact MAX_INTERNAL_TOKENS summarize convLog) = 1)"
proof -
  have noop1: "tokenCount convLog < threshold \<longrightarrow> monitorAndCompact threshold summarize convLog = (convLog, 0)"
    by (simp add: monitorAndCompact_def)
  have noop2: "threshold \<le> tokenCount convLog \<and> eligibleSpan convLog = [] \<longrightarrow>
      monitorAndCompact threshold summarize convLog = (convLog, 0)"
    by (simp add: monitorAndCompact_def)
  have compacted: "entries (fst (monitorAndCompact threshold summarize convLog)) =
        take (spanStart convLog) (entries convLog)
        @ [condensedNotice, summaryEntry (summarize (eligibleSpan convLog))]
        @ drop (length (entries convLog) - 20) (entries convLog)
    \<and> snd (monitorAndCompact threshold summarize convLog) = 1
    \<and> length (entries (fst (monitorAndCompact threshold summarize convLog))) + length (eligibleSpan convLog)
        = length (entries convLog) + 2"
    if t: "threshold \<le> tokenCount convLog" and s: "eligibleSpan convLog \<noteq> []"
  proof -
    note b = span_nonempty_bounds [OF s]
    have len: "length (eligibleSpan convLog) = spanStop convLog - spanStart convLog"
      using b by (simp add: eligibleSpan_def KEEP_RECENT_def)
    show ?thesis using t s b len
      by (simp add: monitorAndCompact_def spanStop_def KEEP_RECENT_def)
  qed
  have recent: "drop (length (entries (fst (monitorAndCompact threshold summarize convLog))) - 20)
        (entries (fst (monitorAndCompact threshold summarize convLog)))
      = drop (length (entries convLog) - 20) (entries convLog)"
  proof (cases "threshold \<le> tokenCount convLog \<and> eligibleSpan convLog \<noteq> []")
    case True
    then have s: "eligibleSpan convLog \<noteq> []" by simp
    note b = span_nonempty_bounds [OF s]
    from compacted True have e: "entries (fst (monitorAndCompact threshold summarize convLog)) =
        (take (spanStart convLog) (entries convLog)
        @ [condensedNotice, summaryEntry (summarize (eligibleSpan convLog))])
        @ drop (length (entries convLog) - 20) (entries convLog)" by simp
    have l: "length (drop (length (entries convLog) - 20) (entries convLog)) = 20"
      using b by (simp add: KEEP_RECENT_def)
    show ?thesis unfolding e using l by simp
  next
    case False
    then have "monitorAndCompact threshold summarize convLog = (convLog, 0)"
      using noop1 noop2 by (cases "tokenCount convLog < threshold") auto
    then show ?thesis by simp
  qed
  have scenario: "eligibleSpan convLog = take 100 (entries convLog)
    \<and> length (entries (fst (monitorAndCompact MAX_INTERNAL_TOKENS summarize convLog))) = 22
    \<and> drop 2 (entries (fst (monitorAndCompact MAX_INTERNAL_TOKENS summarize convLog)))
        = drop 100 (entries convLog)
    \<and> snd (monitorAndCompact MAX_INTERNAL_TOKENS summarize convLog) = 1"
    if n: "length (entries convLog) = 120" and t: "tokenCount convLog = 80001" and m: "lastCompaction convLog = None"
  proof -
    have sp: "eligibleSpan convLog = take 100 (entries convLog)"
      using n m by (simp add: eligibleSpan_def spanStart_def spanStop_def KEEP_RECENT_def)
    then have ne: "eligibleSpan convLog \<noteq> []" using n by auto
    show ?thesis using n t m ne sp
      by (simp add: monitorAndCompact_def MAX_INTERNAL_TOKENS_def spanStart_def spanStop_def
            KEEP_RECENT_def)
  qed
  from noop1 noop2 compacted recent scenario show ?thesis by blast
qed

theorem monitorAndCompact_contract_witness:
  "length (entries scenarioLog) = 120 \<and> tokenCount scenarioLog = 80001
   \<and> lastCompaction scenarioLog = None
   \<and> length (entries (fst (monitorAndCompact MAX_INTERNAL_TOKENS (\<lambda>span. ''summary'') scenarioLog))) = 22
   \<and> drop 2 (entries (fst (monitorAndCompact MAX_INTERNAL_TOKENS (\<lambda>span. ''summary'') scenarioLog)))
       = drop 100 (entries scenarioLog)
   \<and> snd (monitorAndCompact MAX_INTERNAL_TOKENS (\<lambda>span. ''summary'') scenarioLog) = 1
   \<and> monitorAndCompact MAX_INTERNAL_TOKENS (\<lambda>span. ''summary'') (scenarioLog\<lparr>tokenCount := 79999\<rparr>)
       = (scenarioLog\<lparr>tokenCount := 79999\<rparr>, 0)"
proof -
  have h: "length (entries scenarioLog) = 120" "tokenCount scenarioLog = 80001"
    "lastCompaction scenarioLog = None"
    by (simp_all add: scenarioLog_def)
  have l: "tokenCount (scenarioLog\<lparr>tokenCount := 79999\<rparr>) < MAX_INTERNAL_TOKENS"
    by (simp add: MAX_INTERNAL_TOKENS_def)
  from monitorAndCompact_contract [of scenarioLog MAX_INTERNAL_TOKENS "\<lambda>span. ''summary''"]
       monitorAndCompact_contract [of "scenarioLog\<lparr>tokenCount := 79999\<rparr>" MAX_INTERNAL_TOKENS
          "\<lambda>span. ''summary''"] h l
  show ?thesis by blast
qed

end
